theory Spec2Isabelle
  imports Complex_Main
begin

section \<open>Conventions\<close>

text \<open>
  Python floats are modelled as \<^typ>\<open>real\<close> and Python integers as \<^typ>\<open>int\<close>; rounding of
  the floating-point arithmetic is not modelled. Objects mutated in place become records
  that every operation returns updated. Values read from \<^verbatim>\<open>garden_env/config.json\<close> are
  parameters of the model.
\<close>

section \<open>The shared pseudo-random source\<close>

text \<open>
  All components draw from the process-wide generator of Python's \<^verbatim>\<open>random\<close> module. The
  generator is a tape of raw values together with the read position; every library call
  consumes one raw value. \<^verbatim>\<open>random.random()\<close> returns a value in \<open>[0, 1)\<close>,
  \<^verbatim>\<open>random.randint(a, b)\<close> an integer in \<open>a..b\<close>, \<^verbatim>\<open>random.choice(xs)\<close> an element of
  \<open>xs\<close>, and \<^verbatim>\<open>random.gauss(mu, sigma)\<close> scales a raw deviate.
\<close>

record rng =
  tape :: "nat \<Rightarrow> real"
  pos :: nat

definition raw_draw :: "rng \<Rightarrow> real \<times> rng" where
  "raw_draw g = (tape g (pos g), g\<lparr>pos := Suc (pos g)\<rparr>)"

definition random_random :: "rng \<Rightarrow> real \<times> rng" where
  "random_random g = (case raw_draw g of (x, g') \<Rightarrow> (frac x, g'))"

definition random_randint :: "int \<Rightarrow> int \<Rightarrow> rng \<Rightarrow> int \<times> rng" where
  "random_randint a b g =
     (case raw_draw g of (x, g') \<Rightarrow> (a + \<lfloor>frac x * of_int (b - a + 1)\<rfloor>, g'))"

definition random_choice :: "'a list \<Rightarrow> rng \<Rightarrow> 'a \<times> rng" where
  "random_choice xs g =
     (case raw_draw g of (x, g') \<Rightarrow> (xs ! nat \<lfloor>frac x * of_nat (length xs)\<rfloor>, g'))"

definition random_gauss :: "real \<Rightarrow> real \<Rightarrow> rng \<Rightarrow> real \<times> rng" where
  "random_gauss mu sigma g = (case raw_draw g of (x, g') \<Rightarrow> (mu + sigma * x, g'))"

section \<open>Weather (garden\_env/weather.py)\<close>

record WeatherState =
  temperature :: real
  is_raining :: bool
  rainfall_amount :: real
  weather_step :: int

section \<open>Plants (garden\_env/plant.py)\<close>

datatype Phenology = SEEDLING | VEGETATIVE | FLOWERING | HARVESTABLE | DORMANT | DEAD

datatype species = Lettuce | Spinach | Radish | SwissChard | Nasturtium

text \<open>The per-species entry of the configuration file.\<close>

record plant_config =
  cfg_soil_threshold :: real
  cfg_nutrient_threshold :: real
  cfg_critical_soil :: real
  cfg_critical_nutrient :: real
  cfg_growth_rate_max :: real
  cfg_harvest_day :: real
  cfg_flower_stage_soil_threshold :: real
  cfg_flower_stage_day :: real

record PlantStatus =
  status_soil_moisture :: real
  status_nutrient_level :: real
  status_health :: real
  status_biomass :: real
  status_phenology :: Phenology
  status_days_alive :: int
  status_stress_level :: real

text \<open>
  One record for the class \<^verbatim>\<open>Plant\<close> and its five subclasses; \<open>species_of\<close> is the class
  of the object and selects the overriding methods. The three last fields exist on
  \<^verbatim>\<open>Nasturtium\<close> objects only and are never read for the other species.
\<close>

record Plant =
  species_of :: species
  plant_pot_id :: int
  soil_moisture :: real
  nutrient_level :: real
  health :: real
  biomass :: real
  phenology :: Phenology
  soil_threshold :: real
  nutrient_threshold :: real
  critical_soil :: real
  critical_nutrient :: real
  growth_rate_max :: real
  harvest_day :: real
  days_alive :: int
  step_count :: int
  stress_level :: real
  flower_stage_soil_threshold :: real
  flower_stage_day :: real
  is_flowering_stage :: bool

definition create_plant :: "species \<Rightarrow> plant_config \<Rightarrow> int \<Rightarrow> Plant" where
  "create_plant sp c i =
     \<lparr>species_of = sp, plant_pot_id = i,
      soil_moisture = 0.5, nutrient_level = 0.5, health = 100, biomass = 0.1,
      phenology = SEEDLING,
      soil_threshold = cfg_soil_threshold c,
      nutrient_threshold = cfg_nutrient_threshold c,
      critical_soil = cfg_critical_soil c,
      critical_nutrient = cfg_critical_nutrient c,
      growth_rate_max = cfg_growth_rate_max c,
      harvest_day = cfg_harvest_day c,
      days_alive = 0, step_count = 0, stress_level = 0,
      flower_stage_soil_threshold = cfg_flower_stage_soil_threshold c,
      flower_stage_day = cfg_flower_stage_day c,
      is_flowering_stage = False\<rparr>"

text \<open>\<^verbatim>\<open>Plant._update_phenology\<close>, the base method.\<close>

definition Plant_update_phenology :: "Plant \<Rightarrow> Plant" where
  "Plant_update_phenology p =
     (if health p \<le> 0 then p\<lparr>phenology := DEAD\<rparr>
      else if days_alive p < 7 then p\<lparr>phenology := SEEDLING\<rparr>
      else if of_int (days_alive p) < harvest_day p * 0.7 then p\<lparr>phenology := VEGETATIVE\<rparr>
      else if of_int (days_alive p) < harvest_day p * 0.9 then p\<lparr>phenology := FLOWERING\<rparr>
      else if of_int (days_alive p) < harvest_day p * 1.2 then p\<lparr>phenology := HARVESTABLE\<rparr>
      else p\<lparr>phenology := DORMANT\<rparr>)"

text \<open>\<^verbatim>\<open>SwissChard._update_phenology\<close>.\<close>

definition SwissChard_update_phenology :: "Plant \<Rightarrow> Plant" where
  "SwissChard_update_phenology p =
     (if health p \<le> 0 then p\<lparr>phenology := DEAD\<rparr>
      else if days_alive p < 10 then p\<lparr>phenology := SEEDLING\<rparr>
      else if days_alive p < 20 then p\<lparr>phenology := VEGETATIVE\<rparr>
      else p\<lparr>phenology := HARVESTABLE\<rparr>)"

text \<open>\<^verbatim>\<open>Nasturtium._update_phenology\<close>.\<close>

definition Nasturtium_update_phenology :: "Plant \<Rightarrow> Plant" where
  "Nasturtium_update_phenology p =
     (if health p \<le> 0 then p\<lparr>phenology := DEAD\<rparr>
      else if days_alive p < 10 then p\<lparr>phenology := SEEDLING, is_flowering_stage := False\<rparr>
      else if days_alive p < 18 then p\<lparr>phenology := VEGETATIVE, is_flowering_stage := False\<rparr>
      else if of_int (days_alive p) < flower_stage_day p
        then p\<lparr>phenology := FLOWERING, is_flowering_stage := False\<rparr>
      else p\<lparr>phenology := HARVESTABLE, is_flowering_stage := True,
             soil_threshold := flower_stage_soil_threshold p\<rparr>)"

text \<open>Method dispatch on the class of the object.\<close>

definition update_phenology :: "Plant \<Rightarrow> Plant" where
  "update_phenology p =
     (case species_of p of
        SwissChard \<Rightarrow> SwissChard_update_phenology p
      | Nasturtium \<Rightarrow> Nasturtium_update_phenology p
      | _ \<Rightarrow> Plant_update_phenology p)"

text \<open>
  The health delta of \<^verbatim>\<open>Plant._update_health_simple\<close>; the statements of the method
  update the local \<^verbatim>\<open>health_change\<close> in this order.
\<close>

definition Plant_health_change :: "Plant \<Rightarrow> real" where
  "Plant_health_change p =
     (let c0 = 0;
          c1 = (if soil_moisture p < critical_soil p then c0 - 5
                else if soil_moisture p < soil_threshold p then c0 - 1 else c0);
          c2 = (if nutrient_level p < critical_nutrient p then c1 - 5
                else if nutrient_level p < nutrient_threshold p then c1 - 1 else c1);
          c3 = (if nutrient_level p > 1.2 then c2 - 10 else c2);
          c4 = (if soil_moisture p > 1 then c3 - 8 else c3)
      in if soil_moisture p \<ge> soil_threshold p \<and> nutrient_level p \<ge> nutrient_threshold p
         then c4 + 3
         else if c4 = 0 then c4 + 1 else c4)"

text \<open>The delta of \<^verbatim>\<open>Radish._update_health_simple\<close>: reduced moisture penalties.\<close>

definition Radish_health_change :: "Plant \<Rightarrow> real" where
  "Radish_health_change p =
     (let c0 = 0;
          c1 = (if soil_moisture p < critical_soil p then c0 - 3
                else if soil_moisture p < soil_threshold p then c0 - 0.5 else c0);
          c2 = (if nutrient_level p < critical_nutrient p then c1 - 5
                else if nutrient_level p < nutrient_threshold p then c1 - 1 else c1);
          c3 = (if nutrient_level p > 1.2 then c2 - 10 else c2);
          c4 = (if soil_moisture p > 1 then c3 - 8 else c3)
      in if soil_moisture p \<ge> soil_threshold p \<and> nutrient_level p \<ge> nutrient_threshold p
         then c4 + 3
         else if c4 = 0 then c4 + 1 else c4)"

text \<open>
  The tail shared by both versions of \<^verbatim>\<open>_update_health_simple\<close>: apply the delta, clamp to
  \<open>[0, 100]\<close>, and mark the plant dead when no health is left.
\<close>

definition apply_health_change :: "Plant \<Rightarrow> real \<Rightarrow> Plant" where
  "apply_health_change p c =
     (let h = max 0 (min 100 (health p + c));
          p' = p\<lparr>health := h\<rparr>
      in if h \<le> 0 then p'\<lparr>phenology := DEAD\<rparr> else p')"

definition update_health_simple :: "Plant \<Rightarrow> Plant" where
  "update_health_simple p =
     (case species_of p of
        Radish \<Rightarrow> apply_health_change p (Radish_health_change p)
      | _ \<Rightarrow> apply_health_change p (Plant_health_change p))"

definition update_growth_simple :: "Plant \<Rightarrow> Plant" where
  "update_growth_simple p =
     (if health p \<le> 20 then p
      else
        let base_growth = growth_rate_max p;
            stage_factor = (if phenology p = SEEDLING then 0.6
                            else if phenology p = HARVESTABLE then 0.3
                            else if phenology p = DORMANT then 0 else 1);
            cf1 = (if soil_moisture p < soil_threshold p \<or>
                      nutrient_level p < nutrient_threshold p then 0.5 else 1);
            condition_factor = (if soil_moisture p < critical_soil p \<or>
                                   nutrient_level p < critical_nutrient p then 0.1 else cf1);
            health_factor = health p / 100;
            growth = base_growth * stage_factor * condition_factor * health_factor
        in p\<lparr>biomass := biomass p + growth\<rparr>)"

definition update_stress_simple :: "Plant \<Rightarrow> Plant" where
  "update_stress_simple p =
     (let s1 = (if soil_moisture p < critical_soil p then 0.9
                else if soil_moisture p < soil_threshold p then 0.4 else 0);
          s2 = (if nutrient_level p < critical_nutrient p then 0.9
                else if nutrient_level p < nutrient_threshold p then 0.4 else 0)
      in p\<lparr>stress_level := (s1 + s2) / 2\<rparr>)"

definition get_status :: "Plant \<Rightarrow> PlantStatus" where
  "get_status p =
     \<lparr>status_soil_moisture = soil_moisture p,
      status_nutrient_level = nutrient_level p,
      status_health = health p,
      status_biomass = biomass p,
      status_phenology = phenology p,
      status_days_alive = days_alive p,
      status_stress_level = stress_level p\<rparr>"

definition is_alive :: "Plant \<Rightarrow> bool" where
  "is_alive p \<longleftrightarrow> phenology p \<noteq> DEAD \<and> health p > 0"

text \<open>
  The \<^verbatim>\<open>soil_state\<close> argument of \<^verbatim>\<open>Plant.update\<close> is a dictionary read with
  \<^verbatim>\<open>.get(key, default)\<close>: either key may be absent.
\<close>

record soil_dict =
  dict_moisture :: "real option"
  dict_nutrients :: "real option"

text \<open>
  \<^verbatim>\<open>Plant.update\<close>: the updated plant; the returned snapshot is \<open>get_status\<close> of it. The
  weather argument is accepted and not read, as in the source.
\<close>

definition update :: "Plant \<Rightarrow> WeatherState \<Rightarrow> soil_dict \<Rightarrow> int \<Rightarrow> Plant" where
  "update p weather_state soil_state step =
     (let p1 = p\<lparr>step_count := step, days_alive := step div 8\<rparr>;
          p2 = p1\<lparr>soil_moisture :=
                    (case dict_moisture soil_state of Some m \<Rightarrow> m | None \<Rightarrow> soil_moisture p1)\<rparr>;
          p3 = p2\<lparr>nutrient_level :=
                    (case dict_nutrients soil_state of Some n \<Rightarrow> n | None \<Rightarrow> nutrient_level p2)\<rparr>
      in update_stress_simple (update_growth_simple (update_health_simple (update_phenology p3))))"

section \<open>Configuration\<close>

text \<open>
  The fields of \<^verbatim>\<open>garden_env/config.json\<close> that the engine reads. The file is loaded
  once by every component; its values are parameters here.
\<close>

record weather_config =
  temp_mean :: real
  temp_amplitude :: real
  temp_noise_std :: real
  rain_probability_per_day :: real

record config =
  plants_lettuce :: plant_config
  plants_spinach :: plant_config
  plants_radish :: plant_config
  plants_swiss_chard :: plant_config
  plants_nasturtium :: plant_config
  devices_water_pump_water_effect :: real
  devices_fertilizer_fertilizer_effect :: real
  devices_sensors_failure_probability :: real
  devices_sensors_sensor_error_probability :: real
  soil_evaporation_base_rate :: real
  soil_nutrient_consumption_rate :: real
  weather_netherlands_july :: weather_config
  simulation_random_seed :: int
  simulation_total_steps :: int
  weights_total_biomass :: real
  weights_plant_health :: real
  penalties_plant_death :: real
  penalties_overwatering :: real
  penalties_overfertilizing :: real

section \<open>Devices (garden\_env/objects.py)\<close>

record SensorReading =
  reading_soil_moisture :: "real option"
  reading_nutrient_level :: "real option"
  reading_temperature :: "real option"
  reading_timestamp :: int

subsection \<open>Water pump\<close>

record WaterPump =
  water_effect :: real
  total_water_used :: real
  operation_count :: int
  pump_is_failed :: bool
  pump_failure_end_step :: int
  pump_failure_probability :: real

definition WaterPump_init :: "config \<Rightarrow> WaterPump" where
  "WaterPump_init c =
     \<lparr>water_effect = devices_water_pump_water_effect c,
      total_water_used = 0, operation_count = 0,
      pump_is_failed = False, pump_failure_end_step = 0,
      pump_failure_probability = devices_sensors_failure_probability c\<rparr>"

text \<open>
  \<^verbatim>\<open>WaterPump.irrigate\<close>. The fault draw is taken only when the pump is not failed
  (\<^verbatim>\<open>and\<close> short-circuits). A fault stores the constant \<open>1\<close> in \<^verbatim>\<open>failure_end_step\<close>.
\<close>

definition irrigate :: "WaterPump \<Rightarrow> int \<Rightarrow> real \<Rightarrow> int \<Rightarrow> rng \<Rightarrow> real \<times> WaterPump \<times> rng" where
  "irrigate pump pot_id duration_hours current_step g =
     (let pump1 = (if pump_is_failed pump \<and> current_step \<ge> pump_failure_end_step pump
                   then pump\<lparr>pump_is_failed := False\<rparr> else pump);
          (pump2, g2) =
             (if \<not> pump_is_failed pump1
              then (case random_random g of (r, g1) \<Rightarrow>
                      (if r < pump_failure_probability pump1
                       then pump1\<lparr>pump_is_failed := True, pump_failure_end_step := 1\<rparr>
                       else pump1, g1))
              else (pump1, g))
      in if pump_is_failed pump2 then (0, pump2, g2)
         else (water_effect pump2,
               pump2\<lparr>total_water_used := total_water_used pump2 + water_effect pump2,
                      operation_count := operation_count pump2 + 1\<rparr>,
               g2))"

subsection \<open>Fertilizer dispenser\<close>

record Fertilizer =
  fertilizer_effect :: real
  total_fertilizer_used :: real
  application_count :: int
  fert_is_failed :: bool
  fert_failure_end_step :: int
  fert_failure_probability :: real

definition Fertilizer_init :: "config \<Rightarrow> Fertilizer" where
  "Fertilizer_init c =
     \<lparr>fertilizer_effect = devices_fertilizer_fertilizer_effect c,
      total_fertilizer_used = 0, application_count = 0,
      fert_is_failed = False, fert_failure_end_step = 0,
      fert_failure_probability = devices_sensors_failure_probability c\<rparr>"

text \<open>
  \<^verbatim>\<open>Fertilizer.apply_fertilizer\<close>. A fault stores
  \<^verbatim>\<open>current_step + random.randint(3, 8)\<close>; the second draw happens only on a fault.
\<close>

definition apply_fertilizer ::
  "Fertilizer \<Rightarrow> int \<Rightarrow> real \<Rightarrow> int \<Rightarrow> rng \<Rightarrow> real \<times> Fertilizer \<times> rng" where
  "apply_fertilizer f pot_id amount current_step g =
     (let f1 = (if fert_is_failed f \<and> current_step \<ge> fert_failure_end_step f
                then f\<lparr>fert_is_failed := False\<rparr> else f);
          (f2, g2) =
             (if \<not> fert_is_failed f1
              then (case random_random g of (r, g1) \<Rightarrow>
                      (if r < fert_failure_probability f1
                       then (case random_randint 3 8 g1 of (k, g1') \<Rightarrow>
                               (f1\<lparr>fert_is_failed := True,
                                   fert_failure_end_step := current_step + k\<rparr>, g1'))
                       else (f1, g1)))
              else (f1, g))
      in if fert_is_failed f2 then (0, f2, g2)
         else (fertilizer_effect f2,
               f2\<lparr>total_fertilizer_used := total_fertilizer_used f2 + fertilizer_effect f2,
                   application_count := application_count f2 + 1\<rparr>,
               g2))"

subsection \<open>Sensor array\<close>

text \<open>
  \<^verbatim>\<open>sensor_failures\<close> is a dictionary from pot number to \<^verbatim>\<open>failure_end_step\<close>: a pot is
  failed exactly when it is a key.
\<close>

record SensorArray =
  sensor_failures :: "nat \<rightharpoonup> int"
  sensor_failure_probability :: real
  sensor_error_probability :: real
  reading_count :: int

definition SensorArray_init :: "config \<Rightarrow> SensorArray" where
  "SensorArray_init c =
     \<lparr>sensor_failures = Map.empty,
      sensor_failure_probability = devices_sensors_failure_probability c,
      sensor_error_probability = devices_sensors_sensor_error_probability c,
      reading_count = 0\<rparr>"

text \<open>First loop of \<^verbatim>\<open>get_readings\<close>: delete every entry whose end step is reached.\<close>

definition recover_sensors :: "(nat \<rightharpoonup> int) \<Rightarrow> int \<Rightarrow> (nat \<rightharpoonup> int)" where
  "recover_sensors fs current_step =
     (\<lambda>pot_id. case fs pot_id of
                  None \<Rightarrow> None
                | Some failure_end_step \<Rightarrow>
                    if current_step \<ge> failure_end_step then None else Some failure_end_step)"

text \<open>
  Second loop: for each pot in order, a pot that is not failed draws once and fails with
  \<^verbatim>\<open>failure_duration = 1\<close>.
\<close>

fun trigger_failures ::
  "real \<Rightarrow> int \<Rightarrow> nat list \<Rightarrow> (nat \<rightharpoonup> int) \<Rightarrow> rng \<Rightarrow> (nat \<rightharpoonup> int) \<times> rng" where
  "trigger_failures p current_step [] fs g = (fs, g)"
| "trigger_failures p current_step (pot_id # pots) fs g =
     (if fs pot_id = None
      then (case random_random g of (r, g1) \<Rightarrow>
              if r < p
              then trigger_failures p current_step pots (fs(pot_id \<mapsto> current_step + 1)) g1
              else trigger_failures p current_step pots fs g1)
      else trigger_failures p current_step pots fs g)"

definition generate_faulty_reading ::
  "Plant \<Rightarrow> WeatherState \<Rightarrow> int \<Rightarrow> rng \<Rightarrow> SensorReading \<times> rng" where
  "generate_faulty_reading plant weather_state current_step g =
     (case random_choice [''stuck'', ''drift'', ''spike''] g of (fault_type, g1) \<Rightarrow>
        if fault_type = ''stuck'' then
          (\<lparr>reading_soil_moisture = Some 0.5, reading_nutrient_level = Some 0.5,
            reading_temperature = Some (temperature weather_state),
            reading_timestamp = current_step\<rparr>, g1)
        else if fault_type = ''drift'' then
          (case random_random g1 of (r, g2) \<Rightarrow>
             let drift_factor = 0.3 + 0.4 * r in
             (\<lparr>reading_soil_moisture = Some (max 0 (min 1 (soil_moisture plant * drift_factor))),
               reading_nutrient_level = Some (max 0 (min 1 (nutrient_level plant * drift_factor))),
               reading_temperature = Some (temperature weather_state),
               reading_timestamp = current_step\<rparr>, g2))
        else
          (case random_choice [0.95, 0.05] g1 of (m, g2) \<Rightarrow>
           case random_choice [0.95, 0.05] g2 of (n, g3) \<Rightarrow>
             (\<lparr>reading_soil_moisture = Some m, reading_nutrient_level = Some n,
               reading_temperature = Some (temperature weather_state),
               reading_timestamp = current_step\<rparr>, g3)))"

definition generate_error_reading ::
  "Plant \<Rightarrow> WeatherState \<Rightarrow> int \<Rightarrow> rng \<Rightarrow> SensorReading \<times> rng" where
  "generate_error_reading plant weather_state current_step g =
     (case random_random g of (r, g1) \<Rightarrow>
        if r < 0.5 then
          (case random_choice [0.95, 0.05] g1 of (m, g2) \<Rightarrow>
           case random_choice [0.95, 0.05] g2 of (n, g3) \<Rightarrow>
             (\<lparr>reading_soil_moisture = Some m, reading_nutrient_level = Some n,
               reading_temperature = Some (temperature weather_state),
               reading_timestamp = current_step\<rparr>, g3))
        else
          (\<lparr>reading_soil_moisture = None, reading_nutrient_level = None,
            reading_temperature = Some (temperature weather_state),
            reading_timestamp = current_step\<rparr>, g1))"

text \<open>
  How a pot's reading was produced; the source distinguishes the three cases by the branch
  taken, the tag is kept beside the reading so that properties can refer to it.
\<close>

datatype reading_mode = FaultMode | ErrorMode | NormalMode

text \<open>The body of the third loop: the reading of pot \<open>i\<close>, which holds \<open>plant\<close>.\<close>

definition pot_reading ::
  "(nat \<rightharpoonup> int) \<Rightarrow> real \<Rightarrow> WeatherState \<Rightarrow> int \<Rightarrow> nat \<Rightarrow> Plant \<Rightarrow> rng
     \<Rightarrow> (reading_mode \<times> SensorReading) \<times> rng" where
  "pot_reading fs perr weather_state current_step i plant g =
     (if fs i \<noteq> None
      then (case generate_faulty_reading plant weather_state current_step g of
              (rd, g1) \<Rightarrow> ((FaultMode, rd), g1))
      else (case random_random g of (r, g1) \<Rightarrow>
              if r < perr
              then (case generate_error_reading plant weather_state current_step g1 of
                      (rd, g2) \<Rightarrow> ((ErrorMode, rd), g2))
              else ((NormalMode,
                     \<lparr>reading_soil_moisture = Some (soil_moisture plant),
                      reading_nutrient_level = Some (nutrient_level plant),
                      reading_temperature = Some (temperature weather_state),
                      reading_timestamp = current_step\<rparr>), g1)))"

text \<open>Third loop: one reading per plant, in pot order; \<open>i\<close> is the pot of the first plant.\<close>

fun pot_readings ::
  "(nat \<rightharpoonup> int) \<Rightarrow> real \<Rightarrow> WeatherState \<Rightarrow> int \<Rightarrow> nat \<Rightarrow> Plant list \<Rightarrow> rng
     \<Rightarrow> (reading_mode \<times> SensorReading) list \<times> rng" where
  "pot_readings fs perr weather_state current_step i [] g = ([], g)"
| "pot_readings fs perr weather_state current_step i (plant # rest) g =
     (case pot_reading fs perr weather_state current_step i plant g of
        (entry, g') \<Rightarrow>
          (case pot_readings fs perr weather_state current_step (Suc i) rest g' of
             (entries, g'') \<Rightarrow> (entry # entries, g'')))"

text \<open>
  The dictionary returned by \<^verbatim>\<open>get_readings\<close>: entry \<open>i\<close> of \<open>pots\<close> is the value stored
  under the key \<^verbatim>\<open>pot_i\<close>.
\<close>

record readings =
  pots :: "(reading_mode \<times> SensorReading) list"
  environment :: SensorReading

definition get_readings ::
  "SensorArray \<Rightarrow> Plant list \<Rightarrow> WeatherState \<Rightarrow> int \<Rightarrow> rng \<Rightarrow> readings \<times> SensorArray \<times> rng" where
  "get_readings sa plants weather_state current_step g =
     (let fs1 = recover_sensors (sensor_failures sa) current_step;
          (fs2, g1) = trigger_failures (sensor_failure_probability sa) current_step
                        [0 ..< length plants] fs1 g;
          (entries, g2) = pot_readings fs2 (sensor_error_probability sa) weather_state
                            current_step 0 plants g1
      in (\<lparr>pots = entries,
            environment = \<lparr>reading_soil_moisture = None, reading_nutrient_level = None,
                            reading_temperature = Some (temperature weather_state),
                            reading_timestamp = current_step\<rparr>\<rparr>,
          sa\<lparr>sensor_failures := fs2, reading_count := reading_count sa + 1\<rparr>,
          g2))"

subsection \<open>Device manager\<close>

record operation =
  op_step :: int
  op_action :: string
  op_pot_id :: int
  op_requested :: real
  op_actual_effect :: real
  op_success :: bool

record DeviceManager =
  water_pump :: WaterPump
  fertilizer :: Fertilizer
  sensors :: SensorArray
  operation_log :: "operation list"

definition DeviceManager_init :: "config \<Rightarrow> DeviceManager" where
  "DeviceManager_init c =
     \<lparr>water_pump = WaterPump_init c, fertilizer = Fertilizer_init c,
      sensors = SensorArray_init c, operation_log = []\<rparr>"

definition execute_watering ::
  "DeviceManager \<Rightarrow> int \<Rightarrow> real \<Rightarrow> int \<Rightarrow> rng \<Rightarrow> real \<times> DeviceManager \<times> rng" where
  "execute_watering dm pot_id duration current_step g =
     (case irrigate (water_pump dm) pot_id duration current_step g of
        (water_effect', pump', g') \<Rightarrow>
          (water_effect',
           dm\<lparr>water_pump := pump',
              operation_log := operation_log dm @
                [\<lparr>op_step = current_step, op_action = ''water'', op_pot_id = pot_id,
                  op_requested = duration, op_actual_effect = water_effect',
                  op_success = (water_effect' > 0)\<rparr>]\<rparr>,
           g'))"

definition execute_fertilizing ::
  "DeviceManager \<Rightarrow> int \<Rightarrow> real \<Rightarrow> int \<Rightarrow> rng \<Rightarrow> real \<times> DeviceManager \<times> rng" where
  "execute_fertilizing dm pot_id amount current_step g =
     (case apply_fertilizer (fertilizer dm) pot_id amount current_step g of
        (nutrient_effect, f', g') \<Rightarrow>
          (nutrient_effect,
           dm\<lparr>fertilizer := f',
              operation_log := operation_log dm @
                [\<lparr>op_step = current_step, op_action = ''fertilize'', op_pot_id = pot_id,
                  op_requested = amount, op_actual_effect = nutrient_effect,
                  op_success = (nutrient_effect > 0)\<rparr>]\<rparr>,
           g'))"

definition get_sensor_readings ::
  "DeviceManager \<Rightarrow> Plant list \<Rightarrow> WeatherState \<Rightarrow> int \<Rightarrow> rng \<Rightarrow> readings \<times> DeviceManager \<times> rng" where
  "get_sensor_readings dm plants weather_state current_step g =
     (case get_readings (sensors dm) plants weather_state current_step g of
        (rs, sa', g') \<Rightarrow> (rs, dm\<lparr>sensors := sa'\<rparr>, g'))"

section \<open>Weather generator (garden\_env/weather.py)\<close>

record WeatherGenerator =
  wg_temp_mean :: real
  wg_temp_amplitude :: real
  wg_temp_noise_std :: real
  wg_rain_probability :: real
  wg_rain_amount :: real
  wg_current_step :: int
  weather_history :: "WeatherState list"

text \<open>
  \<^verbatim>\<open>WeatherGenerator.__init__(config, random_seed)\<close>. The call \<^verbatim>\<open>random.seed(random_seed)\<close>
  is commented out in the source: the argument is accepted and not used.
\<close>

definition WeatherGenerator_init :: "weather_config \<Rightarrow> int \<Rightarrow> WeatherGenerator" where
  "WeatherGenerator_init wc random_seed =
     \<lparr>wg_temp_mean = temp_mean wc, wg_temp_amplitude = temp_amplitude wc,
      wg_temp_noise_std = temp_noise_std wc,
      wg_rain_probability = rain_probability_per_day wc,
      wg_rain_amount = 8,
      wg_current_step = 0, weather_history = []\<rparr>"

definition generate_temperature :: "WeatherGenerator \<Rightarrow> int \<Rightarrow> int \<Rightarrow> rng \<Rightarrow> real \<times> rng" where
  "generate_temperature wg step time_of_day g =
     (let daily_cycle = wg_temp_amplitude wg * sin (2 * pi * of_int time_of_day / 24);
          seasonal_drift = 0.5 * sin (2 * pi * of_int step / 240)
      in case random_gauss 0 (wg_temp_noise_std wg) g of (noise, g') \<Rightarrow>
           (max 5 (min 40 (wg_temp_mean wg + daily_cycle + seasonal_drift + noise)), g'))"

definition generate_rainfall :: "WeatherGenerator \<Rightarrow> rng \<Rightarrow> (bool \<times> real) \<times> rng" where
  "generate_rainfall wg g =
     (let rain_prob_per_step = wg_rain_probability wg / 8
      in case random_random g of (r, g') \<Rightarrow>
           if r < rain_prob_per_step then ((True, wg_rain_amount wg), g') else ((False, 0), g'))"

definition generate_weather ::
  "WeatherGenerator \<Rightarrow> int \<Rightarrow> rng \<Rightarrow> WeatherState \<times> WeatherGenerator \<times> rng" where
  "generate_weather wg step g =
     (let time_of_day = (step * 3) mod 24
      in case generate_temperature wg step time_of_day g of (temp, g1) \<Rightarrow>
         case generate_rainfall wg g1 of ((raining, amount), g2) \<Rightarrow>
           let weather_state = \<lparr>temperature = temp, is_raining = raining,
                                 rainfall_amount = amount, weather_step = step\<rparr>
           in (weather_state,
               wg\<lparr>wg_current_step := step,
                  weather_history := weather_history wg @ [weather_state]\<rparr>,
               g2))"

record WeatherSimulator =
  weather_generator :: WeatherGenerator
  current_weather :: "WeatherState option"

definition WeatherSimulator_init :: "config \<Rightarrow> WeatherSimulator" where
  "WeatherSimulator_init c =
     \<lparr>weather_generator =
        WeatherGenerator_init (weather_netherlands_july c) (simulation_random_seed c),
      current_weather = None\<rparr>"

definition step_weather ::
  "WeatherSimulator \<Rightarrow> int \<Rightarrow> rng \<Rightarrow> WeatherState \<times> WeatherSimulator \<times> rng" where
  "step_weather ws step g =
     (case generate_weather (weather_generator ws) step g of
        (w, wg', g') \<Rightarrow> (w, ws\<lparr>weather_generator := wg', current_weather := Some w\<rparr>, g'))"

section \<open>Decisions and device actions (garden\_env/simulator.py)\<close>

text \<open>
  A decision is \<^verbatim>\<open>{"pot_id": .., "duration": ..}\<close> or \<^verbatim>\<open>{"pot_id": .., "amount": ..}\<close>. The
  second key is read with a default, so it may be absent.
\<close>

record decision =
  decision_pot_id :: int
  decision_param :: "real option"

record decisions =
  decisions_water :: "decision list"
  decisions_fertilize :: "decision list"

record device_action =
  action_pot_id :: int
  action_step :: int
  action_requested :: real
  action_actual_effect :: real
  action_success :: bool

record device_actions =
  actions_water :: "device_action list"
  actions_fertilize :: "device_action list"

section \<open>Soil (garden\_env/simulator.py, SoilManager)\<close>

record SoilState =
  moisture :: real
  nutrients :: real
  pot_id :: int

record SoilManager =
  soil_states :: "SoilState list"
  evaporation_rate :: real
  nutrient_consumption_rate :: real

definition SoilManager_init :: "config \<Rightarrow> SoilManager" where
  "SoilManager_init c =
     \<lparr>soil_states = map (\<lambda>i. \<lparr>moisture = 0.5, nutrients = 0.5, pot_id = i\<rparr>) [0, 1, 2, 3, 4],
      evaporation_rate = soil_evaporation_base_rate c,
      nutrient_consumption_rate = soil_nutrient_consumption_rate c\<rparr>"

text \<open>The accumulation loop over the logged actions of one kind, for one pot.\<close>

definition effect_for_pot :: "device_action list \<Rightarrow> int \<Rightarrow> real" where
  "effect_for_pot actions pid =
     foldl (\<lambda>acc action.
              if action_pot_id action = pid \<and> action_actual_effect action > 0
              then acc + action_actual_effect action else acc) 0 actions"

definition update_moisture_simple ::
  "SoilManager \<Rightarrow> SoilState \<Rightarrow> WeatherState \<Rightarrow> device_actions \<Rightarrow> Plant option \<Rightarrow> SoilState" where
  "update_moisture_simple sm soil weather acts plant =
     (let base_consumption = evaporation_rate sm;
          temp_factor = 1 + max 0 ((temperature weather - 25) * 0.02);
          plant_consumption =
            (case plant of
               Some pl \<Rightarrow> if is_alive pl then 0.01 * (biomass pl / 5) * (health pl / 100) else 0
             | None \<Rightarrow> 0);
          total_consumption = base_consumption * temp_factor + plant_consumption;
          rainfall_input = (if is_raining weather then 0.15 else 0);
          irrigation = effect_for_pot (actions_water acts) (pot_id soil);
          moisture_change = rainfall_input + irrigation - total_consumption
      in soil\<lparr>moisture := max 0 (min 1.3 (moisture soil + moisture_change))\<rparr>)"

definition update_nutrients_simple ::
  "SoilManager \<Rightarrow> SoilState \<Rightarrow> WeatherState \<Rightarrow> device_actions \<Rightarrow> Plant option \<Rightarrow> SoilState" where
  "update_nutrients_simple sm soil weather acts plant =
     (let plant_uptake =
            (case plant of
               Some pl \<Rightarrow> if is_alive pl then nutrient_consumption_rate sm * (health pl / 100) else 0
             | None \<Rightarrow> 0);
          rain_loss = (if is_raining weather then 0.05 else 0);
          fertilizer_input = effect_for_pot (actions_fertilize acts) (pot_id soil);
          nutrient_change = fertilizer_input - plant_uptake - rain_loss
      in soil\<lparr>nutrients := max 0 (min 1.5 (nutrients soil + nutrient_change))\<rparr>)"

text \<open>
  \<^verbatim>\<open>update_soil\<close>: pot \<open>i\<close> is updated with plant \<open>i\<close> when there is one
  (\<^verbatim>\<open>plants[i] if i < len(plants) else None\<close>); \<open>i\<close> is the index of the first soil state.
\<close>

fun update_soil_from ::
  "SoilManager \<Rightarrow> WeatherState \<Rightarrow> device_actions \<Rightarrow> Plant list \<Rightarrow> nat \<Rightarrow> SoilState list
     \<Rightarrow> SoilState list" where
  "update_soil_from sm weather acts plants i [] = []"
| "update_soil_from sm weather acts plants i (soil # rest) =
     (let plant = (if i < length plants then Some (plants ! i) else None);
          soil1 = update_moisture_simple sm soil weather acts plant;
          soil2 = update_nutrients_simple sm soil1 weather acts plant
      in soil2 # update_soil_from sm weather acts plants (Suc i) rest)"

definition update_soil ::
  "SoilManager \<Rightarrow> WeatherState \<Rightarrow> device_actions \<Rightarrow> Plant list \<Rightarrow> SoilManager" where
  "update_soil sm weather acts plants =
     sm\<lparr>soil_states := update_soil_from sm weather acts plants 0 (soil_states sm)\<rparr>"

section \<open>Evaluation (garden\_env/simulator.py, EvaluationEngine)\<close>

record score_record =
  record_step :: int
  record_base_score :: real
  record_penalty :: real
  record_final_score :: real
  record_water_actions :: nat
  record_fertilize_actions :: nat
  record_biomass :: real
  record_health :: real

record EvaluationEngine =
  weight_total_biomass :: real
  weight_plant_health :: real
  penalty_plant_death :: real
  penalty_overwatering :: real
  penalty_overfertilizing :: real
  score_history :: "score_record list"

definition EvaluationEngine_init :: "config \<Rightarrow> EvaluationEngine" where
  "EvaluationEngine_init c =
     \<lparr>weight_total_biomass = weights_total_biomass c,
      weight_plant_health = weights_plant_health c,
      penalty_plant_death = penalties_plant_death c,
      penalty_overwatering = penalties_overwatering c,
      penalty_overfertilizing = penalties_overfertilizing c,
      score_history = []\<rparr>"

definition calculate_biomass_score :: "Plant list \<Rightarrow> real" where
  "calculate_biomass_score plants =
     (let total_biomass = sum_list (map biomass (filter is_alive plants))
      in min 100 ((total_biomass / 50) * 100))"

definition calculate_health_score :: "Plant list \<Rightarrow> real" where
  "calculate_health_score plants =
     (if plants = [] then 0
      else let alive_plants = filter is_alive plants
           in if alive_plants = [] then 0
              else sum_list (map health alive_plants) / of_nat (length alive_plants))"

definition calculate_penalties_enhanced ::
  "EvaluationEngine \<Rightarrow> Plant list \<Rightarrow> decisions \<Rightarrow> device_actions \<Rightarrow> real" where
  "calculate_penalties_enhanced ev plants ds acts =
     (let penalty0 = 0;
          dead_plants = length (filter (\<lambda>p. \<not> is_alive p) plants);
          penalty1 = penalty0 + of_nat dead_plants * penalty_plant_death ev;
          water_actions = length (actions_water acts);
          penalty2 = (if water_actions > 10
                      then penalty1 + (of_nat water_actions - 10) * penalty_overwatering ev
                      else penalty1);
          fertilize_actions = length (actions_fertilize acts);
          penalty3 = (if fertilize_actions > 15
                      then penalty2 + (of_nat fertilize_actions - 15) * penalty_overfertilizing ev
                      else penalty2)
      in foldl (\<lambda>penalty plant.
                  if soil_moisture plant > 1
                  then penalty + (soil_moisture plant - 1) * 50 else penalty)
           penalty3 plants)"

definition calculate_score ::
  "EvaluationEngine \<Rightarrow> int \<Rightarrow> Plant list \<Rightarrow> decisions \<Rightarrow> device_actions
     \<Rightarrow> real \<times> EvaluationEngine" where
  "calculate_score ev step plants ds acts =
     (let biomass_score = calculate_biomass_score plants;
          health_score = calculate_health_score plants;
          base_score = biomass_score * weight_total_biomass ev
                       + health_score * weight_plant_health ev;
          penalty = calculate_penalties_enhanced ev plants ds acts;
          final_score = max 0 (base_score + penalty);
          score_rec = \<lparr>record_step = step, record_base_score = base_score,
                       record_penalty = penalty, record_final_score = final_score,
                       record_water_actions = length (actions_water acts),
                       record_fertilize_actions = length (actions_fertilize acts),
                       record_biomass = biomass_score, record_health = health_score\<rparr>
      in (final_score, ev\<lparr>score_history := score_history ev @ [score_rec]\<rparr>))"

section \<open>Step results and history (garden\_env/simulator.py, StateManager)\<close>

record StepResult =
  result_step :: int
  result_weather :: WeatherState
  result_soil_states :: "SoilState list"
  result_plant_states :: "PlantStatus list"
  result_sensor_readings :: readings
  result_student_decisions :: decisions
  result_device_actions :: device_actions
  result_score :: real

record sensor_entry =
  entry_step :: int
  entry_soil_moisture :: "real option"
  entry_nutrient_level :: "real option"
  entry_temperature :: "real option"

record action_entry =
  act_step :: int
  act_action :: string

text \<open>
  The two history dictionaries map a pot number to a list; a missing key reads as the
  empty list (\<^verbatim>\<open>.get(pot_id, [])\<close>), so each is a total function here. The daily
  summaries of the source are reporting only and are left out.
\<close>

record StateManager =
  simulation_history :: "StepResult list"
  sensor_history :: "nat \<Rightarrow> sensor_entry list"
  action_history :: "nat \<Rightarrow> action_entry list"

definition StateManager_init :: "config \<Rightarrow> StateManager" where
  "StateManager_init c =
     \<lparr>simulation_history = [], sensor_history = (\<lambda>_. []), action_history = (\<lambda>_. [])\<rparr>"

text \<open>Append one reading; beyond 24 entries the oldest is dropped (\<^verbatim>\<open>pop(0)\<close>).\<close>

definition push_sensor_entry :: "sensor_entry list \<Rightarrow> sensor_entry \<Rightarrow> sensor_entry list" where
  "push_sensor_entry h e = (let h' = h @ [e] in if length h' > 24 then tl h' else h')"

fun log_sensor_readings ::
  "int \<Rightarrow> nat \<Rightarrow> (reading_mode \<times> SensorReading) list \<Rightarrow> (nat \<Rightarrow> sensor_entry list)
     \<Rightarrow> (nat \<Rightarrow> sensor_entry list)" where
  "log_sensor_readings step i [] sh = sh"
| "log_sensor_readings step i ((m, reading) # rest) sh =
     log_sensor_readings step (Suc i) rest
       (sh(i := push_sensor_entry (sh i)
                  \<lparr>entry_step = step,
                   entry_soil_moisture = reading_soil_moisture reading,
                   entry_nutrient_level = reading_nutrient_level reading,
                   entry_temperature = reading_temperature reading\<rparr>))"

text \<open>The entries one pot gains in a step, trimmed to the last 48 (\<^verbatim>\<open>[-48:]\<close>).\<close>

definition push_action_entries ::
  "int \<Rightarrow> decisions \<Rightarrow> nat \<Rightarrow> action_entry list \<Rightarrow> action_entry list" where
  "push_action_entries step ds pid h =
     (let h1 = h @ map (\<lambda>_. \<lparr>act_step = step, act_action = ''water''\<rparr>)
                     (filter (\<lambda>d. decision_pot_id d = int pid) (decisions_water ds));
          h2 = h1 @ map (\<lambda>_. \<lparr>act_step = step, act_action = ''fertilize''\<rparr>)
                      (filter (\<lambda>d. decision_pot_id d = int pid) (decisions_fertilize ds))
      in if length h2 > 48 then drop (length h2 - 48) h2 else h2)"

definition log_step :: "StateManager \<Rightarrow> StepResult \<Rightarrow> StateManager" where
  "log_step stm r =
     (let sh = log_sensor_readings (result_step r) 0 (pots (result_sensor_readings r))
                 (sensor_history stm);
          ah = (\<lambda>pid. if pid < 5
                       then push_action_entries (result_step r) (result_student_decisions r) pid
                              (action_history stm pid)
                       else action_history stm pid)
      in stm\<lparr>simulation_history := simulation_history stm @ [r],
             sensor_history := sh, action_history := ah\<rparr>)"

section \<open>The orchestrator (garden\_env/simulator.py, GardenSimulator)\<close>

text \<open>The dictionary handed to the decision functions.\<close>

record observation =
  obs_pot_id :: nat
  obs_step :: int
  obs_day :: int
  obs_time_of_day :: int
  obs_sensor_data :: SensorReading
  obs_environment :: SensorReading
  obs_Rain :: bool
  obs_plant_type :: string
  obs_plant_status :: PlantStatus
  obs_sensor_history :: "sensor_entry list"
  obs_action_history :: "action_entry list"

text \<open>
  The two registered decision functions. A call that raises is the value \<open>None\<close>; the
  orchestrator catches it.
\<close>

record student_functions =
  should_water :: "observation \<Rightarrow> bool option"
  should_fertilize :: "observation \<Rightarrow> bool option"

record GardenSimulator =
  sim_config :: config
  weather_sim :: WeatherSimulator
  device_manager :: DeviceManager
  soil_manager :: SoilManager
  state_manager :: StateManager
  evaluator :: EvaluationEngine
  plants :: "Plant list"
  student_fns :: student_functions
  current_step :: int
  is_running :: bool
  step_results :: "StepResult list"

text \<open>
  \<^verbatim>\<open>GardenSimulator.__init__\<close>. The call \<^verbatim>\<open>random.seed(...)\<close> is commented out in the
  source, so nothing here touches the generator: a run starts from whatever state the
  process-wide generator is in.
\<close>

definition GardenSimulator_init :: "config \<Rightarrow> GardenSimulator" where
  "GardenSimulator_init c =
     \<lparr>sim_config = c,
      weather_sim = WeatherSimulator_init c,
      device_manager = DeviceManager_init c,
      soil_manager = SoilManager_init c,
      state_manager = StateManager_init c,
      evaluator = EvaluationEngine_init c,
      plants = [create_plant Lettuce (plants_lettuce c) 0,
                create_plant Spinach (plants_spinach c) 1,
                create_plant Radish (plants_radish c) 2,
                create_plant SwissChard (plants_swiss_chard c) 3,
                create_plant Nasturtium (plants_nasturtium c) 4],
      student_fns = \<lparr>should_water = (\<lambda>_. Some False), should_fertilize = (\<lambda>_. Some False)\<rparr>,
      current_step = 0, is_running = False, step_results = []\<rparr>"

definition register_student_functions ::
  "GardenSimulator \<Rightarrow> (observation \<Rightarrow> bool option) \<Rightarrow> (observation \<Rightarrow> bool option)
     \<Rightarrow> GardenSimulator" where
  "register_student_functions sim sw sf =
     sim\<lparr>student_fns := \<lparr>should_water = sw, should_fertilize = sf\<rparr>\<rparr>"

text \<open>\<^verbatim>\<open>__class__.__name__.lower()\<close> of a plant object.\<close>

fun plant_type :: "species \<Rightarrow> string" where
  "plant_type Lettuce = ''lettuce''"
| "plant_type Spinach = ''spinach''"
| "plant_type Radish = ''radish''"
| "plant_type SwissChard = ''swisschard''"
| "plant_type Nasturtium = ''nasturtium''"

text \<open>
  The body of the loop of \<^verbatim>\<open>_make_student_decisions_with_history\<close> for one pot. Both
  functions are called before either decision is appended, so an exception in the second
  also discards the first.
\<close>

definition decide_pot :: "GardenSimulator \<Rightarrow> readings \<Rightarrow> WeatherState \<Rightarrow> nat \<Rightarrow> decisions \<Rightarrow> decisions" where
  "decide_pot sim rs weather pid ds =
     (if pid < length (pots rs) then
        let state = \<lparr>obs_pot_id = pid,
                     obs_step = current_step sim,
                     obs_day = current_step sim div 8,
                     obs_time_of_day = (current_step sim * 3) mod 24,
                     obs_sensor_data = snd (pots rs ! pid),
                     obs_environment = environment rs,
                     obs_Rain = is_raining weather,
                     obs_plant_type = plant_type (species_of (plants sim ! pid)),
                     obs_plant_status = get_status (plants sim ! pid),
                     obs_sensor_history = sensor_history (state_manager sim) pid,
                     obs_action_history = action_history (state_manager sim) pid\<rparr>
        in (case should_water (student_fns sim) state of
              None \<Rightarrow> ds
            | Some sw \<Rightarrow>
               (case should_fertilize (student_fns sim) state of
                  None \<Rightarrow> ds
                | Some sf \<Rightarrow>
                    let ds1 = (if sw then ds\<lparr>decisions_water := decisions_water ds @
                                 [\<lparr>decision_pot_id = int pid, decision_param = Some 0.5\<rparr>]\<rparr>
                               else ds)
                    in if sf then ds1\<lparr>decisions_fertilize := decisions_fertilize ds1 @
                                 [\<lparr>decision_pot_id = int pid, decision_param = Some 1\<rparr>]\<rparr>
                       else ds1))
      else ds)"

definition make_student_decisions_with_history ::
  "GardenSimulator \<Rightarrow> readings \<Rightarrow> WeatherState \<Rightarrow> decisions" where
  "make_student_decisions_with_history sim rs weather =
     foldl (\<lambda>ds pid. decide_pot sim rs weather pid ds)
       \<lparr>decisions_water = [], decisions_fertilize = []\<rparr> [0, 1, 2, 3, 4]"

text \<open>The two loops of \<^verbatim>\<open>_execute_device_actions\<close>: one logged action per decision.\<close>

fun execute_water_decisions ::
  "DeviceManager \<Rightarrow> int \<Rightarrow> decision list \<Rightarrow> rng \<Rightarrow> device_action list \<times> DeviceManager \<times> rng" where
  "execute_water_decisions dm step [] g = ([], dm, g)"
| "execute_water_decisions dm step (d # rest) g =
     (let duration = (case decision_param d of Some x \<Rightarrow> x | None \<Rightarrow> 0.5)
      in case execute_watering dm (decision_pot_id d) duration step g of
           (actual_effect, dm1, g1) \<Rightarrow>
             (case execute_water_decisions dm1 step rest g1 of
                (acts, dm2, g2) \<Rightarrow>
                  (\<lparr>action_pot_id = decision_pot_id d, action_step = step,
                    action_requested = duration, action_actual_effect = actual_effect,
                    action_success = (actual_effect > 0)\<rparr> # acts, dm2, g2)))"

fun execute_fertilize_decisions ::
  "DeviceManager \<Rightarrow> int \<Rightarrow> decision list \<Rightarrow> rng \<Rightarrow> device_action list \<times> DeviceManager \<times> rng" where
  "execute_fertilize_decisions dm step [] g = ([], dm, g)"
| "execute_fertilize_decisions dm step (d # rest) g =
     (let amount = (case decision_param d of Some x \<Rightarrow> x | None \<Rightarrow> 1)
      in case execute_fertilizing dm (decision_pot_id d) amount step g of
           (actual_effect, dm1, g1) \<Rightarrow>
             (case execute_fertilize_decisions dm1 step rest g1 of
                (acts, dm2, g2) \<Rightarrow>
                  (\<lparr>action_pot_id = decision_pot_id d, action_step = step,
                    action_requested = amount, action_actual_effect = actual_effect,
                    action_success = (actual_effect > 0)\<rparr> # acts, dm2, g2)))"

definition execute_device_actions ::
  "DeviceManager \<Rightarrow> decisions \<Rightarrow> int \<Rightarrow> rng \<Rightarrow> device_actions \<times> DeviceManager \<times> rng" where
  "execute_device_actions dm ds step g =
     (case execute_water_decisions dm step (decisions_water ds) g of
        (wacts, dm1, g1) \<Rightarrow>
          (case execute_fertilize_decisions dm1 step (decisions_fertilize ds) g1 of
             (facts, dm2, g2) \<Rightarrow>
               (\<lparr>actions_water = wacts, actions_fertilize = facts\<rparr>, dm2, g2)))"

text \<open>
  Phase 6 of \<^verbatim>\<open>step_simulation\<close> for one pot: copy the soil values into the plant, apply
  the direct over-saturation damage, then call \<^verbatim>\<open>plant.update\<close>.
\<close>

definition update_plant_in_pot :: "WeatherState \<Rightarrow> int \<Rightarrow> Plant \<Rightarrow> SoilState \<Rightarrow> Plant" where
  "update_plant_in_pot weather step plant soil_state =
     (let p1 = plant\<lparr>soil_moisture := moisture soil_state,
                     nutrient_level := nutrients soil_state\<rparr>;
          p2 = (if moisture soil_state > 1
                then p1\<lparr>health := health p1 - (moisture soil_state - 1) * 20\<rparr> else p1);
          p3 = (if nutrients soil_state > 1.2
                then p2\<lparr>health := health p2 - (nutrients soil_state - 1.2) * 30\<rparr> else p2)
      in update p3 weather
           \<lparr>dict_moisture = Some (moisture soil_state),
            dict_nutrients = Some (nutrients soil_state)\<rparr> step)"

text \<open>
  \<^verbatim>\<open>step_simulation\<close>. The plant list and the soil list both hold five entries from
  construction on, so plant \<open>i\<close> meets soil state \<open>i\<close>.
\<close>

definition step_simulation ::
  "GardenSimulator \<Rightarrow> int \<Rightarrow> rng \<Rightarrow> StepResult \<times> GardenSimulator \<times> rng" where
  "step_simulation sim0 step g =
     (let sim = sim0\<lparr>current_step := step\<rparr>
      in case step_weather (weather_sim sim) step g of (weather, ws', g1) \<Rightarrow>
         case get_sensor_readings (device_manager sim) (plants sim) weather step g1 of
           (sensor_readings, dm1, g2) \<Rightarrow>
         let student_decisions = make_student_decisions_with_history sim sensor_readings weather
         in case execute_device_actions dm1 student_decisions step g2 of
           (device_actions_dict, dm2, g3) \<Rightarrow>
         let sm' = update_soil (soil_manager sim) weather device_actions_dict (plants sim);
             plants' = map (\<lambda>(plant, soil_state). update_plant_in_pot weather step plant soil_state)
                         (zip (plants sim) (soil_states sm'));
             plant_states = map get_status plants'
         in case calculate_score (evaluator sim) step plants' student_decisions
                   device_actions_dict of
           (score, ev') \<Rightarrow>
         let step_result = \<lparr>result_step = step, result_weather = weather,
                            result_soil_states = soil_states sm',
                            result_plant_states = plant_states,
                            result_sensor_readings = sensor_readings,
                            result_student_decisions = student_decisions,
                            result_device_actions = device_actions_dict,
                            result_score = score\<rparr>
         in (step_result,
             sim\<lparr>weather_sim := ws', device_manager := dm2, soil_manager := sm',
                 plants := plants', evaluator := ev',
                 state_manager := log_step (state_manager sim) step_result\<rparr>,
             g3))"

text \<open>The loop of \<^verbatim>\<open>run_simulation\<close> over the remaining steps.\<close>

fun run_steps :: "GardenSimulator \<Rightarrow> int list \<Rightarrow> rng \<Rightarrow> GardenSimulator \<times> rng" where
  "run_steps sim [] g = (sim, g)"
| "run_steps sim (step # rest) g =
     (case step_simulation sim step g of
        (step_result, sim', g') \<Rightarrow>
          run_steps (sim'\<lparr>step_results := step_results sim' @ [step_result]\<rparr>) rest g')"

text \<open>The part of the final report that the properties below refer to.\<close>

record report =
  report_total_steps :: nat
  report_final_score :: real
  report_scores :: "real list"
  total_water_actions :: nat
  total_fertilize_actions :: nat
  successful_water_actions :: nat
  successful_fertilize_actions :: nat

datatype report_result = NoData | Report report

definition generate_final_report :: "GardenSimulator \<Rightarrow> report_result" where
  "generate_final_report sim =
     (if step_results sim = [] then NoData
      else
        let final_step = last (step_results sim)
        in Report
            \<lparr>report_total_steps = length (step_results sim),
             report_final_score = result_score final_step,
             report_scores = map result_score (step_results sim),
             total_water_actions =
               sum_list (map (\<lambda>s. length (decisions_water (result_student_decisions s)))
                           (step_results sim)),
             total_fertilize_actions =
               sum_list (map (\<lambda>s. length (decisions_fertilize (result_student_decisions s)))
                           (step_results sim)),
             successful_water_actions =
               sum_list (map (\<lambda>s. length (filter action_success
                                             (actions_water (result_device_actions s))))
                           (step_results sim)),
             successful_fertilize_actions =
               sum_list (map (\<lambda>s. length (filter action_success
                                             (actions_fertilize (result_device_actions s))))
                           (step_results sim))\<rparr>)"

text \<open>
  \<^verbatim>\<open>run_simulation(total_steps)\<close>: the steps \<open>0, \<dots>, total_steps - 1\<close> in order, then the
  report. Interruption by the user is not modelled.
\<close>

definition run_simulation :: "GardenSimulator \<Rightarrow> int \<Rightarrow> rng \<Rightarrow> report_result \<times> GardenSimulator \<times> rng" where
  "run_simulation sim0 total_steps g =
     (case run_steps (sim0\<lparr>is_running := True, step_results := []\<rparr>)
             (map int [0 ..< nat total_steps]) g of
        (sim, g') \<Rightarrow>
          let sim' = sim\<lparr>is_running := False\<rparr>
          in (generate_final_report sim', sim', g'))"

section \<open>Predicates used by the properties\<close>

text \<open>A soil state inside the clamp ranges of the soil update.\<close>

definition soil_in_range :: "SoilState \<Rightarrow> bool" where
  "soil_in_range s \<longleftrightarrow>
     0 \<le> moisture s \<and> moisture s \<le> 1.3 \<and> 0 \<le> nutrients s \<and> nutrients s \<le> 1.5"

text \<open>A pump that cannot fail: fault probability zero, operational, effect \<open>w\<close>.\<close>

definition pump_reliable :: "real \<Rightarrow> DeviceManager \<Rightarrow> bool" where
  "pump_reliable w dm \<longleftrightarrow>
     pump_failure_probability (water_pump dm) = 0 \<and> \<not> pump_is_failed (water_pump dm) \<and>
     water_effect (water_pump dm) = w"

definition water_ok :: "real \<Rightarrow> device_action \<Rightarrow> bool" where
  "water_ok w a \<longleftrightarrow> action_actual_effect a = w \<and> action_success a"

definition results_water_ok :: "real \<Rightarrow> StepResult list \<Rightarrow> bool" where
  "results_water_ok w rs =
     list_all (\<lambda>r. list_all (water_ok w) (actions_water (result_device_actions r))) rs"


text \<open>
  Every sensor fault still recorded ends at step \<open>s\<close> or earlier, so that a call of
  \<^verbatim>\<open>get_readings\<close> at step \<open>s\<close> recovers all of them. This holds for a fresh sensor array,
  and after the call of step \<open>s - 1\<close> (see \<open>get_readings_faults\<close> below).
\<close>

definition sensors_due :: "SensorArray \<Rightarrow> int \<Rightarrow> bool" where
  "sensors_due sa s \<longleftrightarrow> (\<forall>k e. sensor_failures sa k = Some e \<longrightarrow> e \<le> s)"

text \<open>The score trajectory of a report; there is none when no step completed.\<close>

fun scores_of :: "report_result \<Rightarrow> real list" where
  "scores_of NoData = []"
| "scores_of (Report rep) = report_scores rep"

section \<open>Example inputs\<close>

text \<open>
  A configuration with plausible values, a generator whose every raw value is \<open>0.5\<close>
  (no fault, no rain), and devices caught in the middle of a fault.
\<close>

definition example_plant_config :: plant_config where
  "example_plant_config =
     \<lparr>cfg_soil_threshold = 0.3, cfg_nutrient_threshold = 0.45,
      cfg_critical_soil = 0.15, cfg_critical_nutrient = 0.15,
      cfg_growth_rate_max = 0.05, cfg_harvest_day = 25,
      cfg_flower_stage_soil_threshold = 0.4, cfg_flower_stage_day = 22\<rparr>"

definition example_config :: config where
  "example_config =
     \<lparr>plants_lettuce = example_plant_config, plants_spinach = example_plant_config,
      plants_radish = example_plant_config, plants_swiss_chard = example_plant_config,
      plants_nasturtium = example_plant_config,
      devices_water_pump_water_effect = 0.25,
      devices_fertilizer_fertilizer_effect = 0.2,
      devices_sensors_failure_probability = 0.1,
      devices_sensors_sensor_error_probability = 0.05,
      soil_evaporation_base_rate = 0.02,
      soil_nutrient_consumption_rate = 0.01,
      weather_netherlands_july =
        \<lparr>temp_mean = 20, temp_amplitude = 5, temp_noise_std = 2,
         rain_probability_per_day = 0.3\<rparr>,
      simulation_random_seed = 42,
      simulation_total_steps = 240,
      weights_total_biomass = 0.5, weights_plant_health = 0.5,
      penalties_plant_death = - 20, penalties_overwatering = - 2,
      penalties_overfertilizing = - 3\<rparr>"

definition calm_rng :: rng where
  "calm_rng = \<lparr>tape = (\<lambda>n. 0.5), pos = 0\<rparr>"

definition failed_devices :: DeviceManager where
  "failed_devices =
     (DeviceManager_init example_config)
       \<lparr>water_pump := (WaterPump_init example_config)
                        \<lparr>pump_is_failed := True, pump_failure_end_step := 1\<rparr>,
        fertilizer := (Fertilizer_init example_config)
                        \<lparr>fert_is_failed := True, fert_failure_end_step := 8\<rparr>\<rparr>"

definition reliable_sim :: GardenSimulator where
  "reliable_sim = GardenSimulator_init (example_config\<lparr>devices_sensors_failure_probability := 0\<rparr>)"

definition clear_weather :: WeatherState where
  "clear_weather = \<lparr>temperature = 20, is_raining = False, rainfall_amount = 0, weather_step = 0\<rparr>"

definition faulty_rng :: rng where
  "faulty_rng = \<lparr>tape = (\<lambda>n. if n = 0 then 0.05 else 0.1), pos = 0\<rparr>"

definition one_plant :: "Plant list" where
  "one_plant = [create_plant Lettuce example_plant_config 0]"

definition fault_then_calm :: rng where
  "fault_then_calm = \<lparr>tape = (\<lambda>n. if n = 0 then 0.05 else 0.5), pos = 0\<rparr>"

definition two_waterings :: "decision list" where
  "two_waterings = [\<lparr>decision_pot_id = 0, decision_param = Some 0.5\<rparr>,
                    \<lparr>decision_pot_id = 1, decision_param = Some 0.5\<rparr>]"

definition dry_soil :: soil_dict where
  "dry_soil = \<lparr>dict_moisture = Some 0, dict_nutrients = Some 0\<rparr>"

definition good_soil :: soil_dict where
  "good_soil = \<lparr>dict_moisture = Some 0.5, dict_nutrients = Some 0.5\<rparr>"

text \<open>A sequence of \<^verbatim>\<open>update\<close> calls on one plant, each with its soil state and step.\<close>

fun update_sequence :: "Plant \<Rightarrow> WeatherState \<Rightarrow> (soil_dict \<times> int) list \<Rightarrow> Plant" where
  "update_sequence p w [] = p"
| "update_sequence p w ((soil, step) # rest) = update_sequence (update p w soil step) w rest"

definition neglect :: "(soil_dict \<times> int) list" where
  "neglect = [(dry_soil, 0), (dry_soil, 1), (dry_soil, 2), (dry_soil, 3), (dry_soil, 4),
              (dry_soil, 5), (dry_soil, 6), (dry_soil, 7), (dry_soil, 8), (dry_soil, 9)]"

definition dead_lettuce :: Plant where
  "dead_lettuce = (create_plant Lettuce example_plant_config 0)
     \<lparr>soil_moisture := 0, nutrient_level := 0, health := 0, phenology := DEAD,
      days_alive := 1, step_count := 9, stress_level := 0.9, biomass := 0.1126\<rparr>"

definition soaked_plant :: Plant where
  "soaked_plant = (create_plant Lettuce example_plant_config 0)\<lparr>soil_moisture := 1.2\<rparr>"

definition moist_plant :: Plant where
  "moist_plant = (create_plant Lettuce example_plant_config 0)\<lparr>soil_moisture := 1\<rparr>"

definition no_decisions :: decisions where
  "no_decisions = \<lparr>decisions_water = [], decisions_fertilize = []\<rparr>"

definition no_actions :: device_actions where
  "no_actions = \<lparr>actions_water = [], actions_fertilize = []\<rparr>"

text \<open>
  A generator whose every raw value is \<open>0.05\<close> (every fault draw hits), a simulator whose
  decision functions always answer yes, and two sensor calls in the same step.
\<close>

definition hasty_rng :: rng where
  "hasty_rng = \<lparr>tape = (\<lambda>n. 0.05), pos = 0\<rparr>"

definition eager_sim :: GardenSimulator where
  "eager_sim = register_student_functions (GardenSimulator_init example_config)
                 (\<lambda>_. Some True) (\<lambda>_. Some True)"

definition first_call :: "readings \<times> SensorArray \<times> rng" where
  "first_call = get_readings (SensorArray_init example_config) one_plant clear_weather 0 faulty_rng"

definition second_call :: "readings \<times> SensorArray \<times> rng" where
  "second_call = get_readings (fst (snd first_call)) one_plant clear_weather 0 (snd (snd first_call))"

text \<open>A first step under the hasty generator, the step after it, and a one-step run of the eager simulator.\<close>

definition warm_up :: "GardenSimulator \<times> rng" where
  "warm_up = run_steps (GardenSimulator_init example_config) (map int [0 ..< 1]) hasty_rng"

definition second_step :: "StepResult \<times> GardenSimulator \<times> rng" where
  "second_step = step_simulation (fst warm_up) 1 (snd warm_up)"

definition eager_run :: "report_result \<times> GardenSimulator \<times> rng" where
  "eager_run = run_simulation eager_sim 1 hasty_rng"

section \<open>Properties\<close>

lemmas rng_defs = raw_draw_def random_random_def random_randint_def random_choice_def
  random_gauss_def frac_def

lemmas device_init_defs = DeviceManager_init_def WaterPump_init_def Fertilizer_init_def
  SensorArray_init_def example_config_def



lemma random_random_range: "0 \<le> fst (random_random g) \<and> fst (random_random g) < 1"
  by (simp add: random_random_def raw_draw_def frac_lt_1)

lemma random_randint_3_8: "3 \<le> fst (random_randint 3 8 g) \<and> fst (random_randint 3 8 g) \<le> 8"
proof -
  have a: "0 \<le> frac (tape g (pos g)) * 6" by simp
  have "frac (tape g (pos g)) * 6 < 6" using frac_lt_1 [of "tape g (pos g)"] by simp
  then have b: "\<lfloor>frac (tape g (pos g)) * 6\<rfloor> < 6" by (simp add: floor_less_iff)
  have c: "0 \<le> \<lfloor>frac (tape g (pos g)) * 6\<rfloor>" using a by simp
  show ?thesis using b c by (simp add: random_randint_def raw_draw_def)
qed

lemma update_moisture_simple_range:
  "0 \<le> moisture (update_moisture_simple sm soil weather acts plant) \<and>
   moisture (update_moisture_simple sm soil weather acts plant) \<le> 1.3"
  by (simp add: update_moisture_simple_def Let_def max_def min_def)

lemma update_moisture_simple_nutrients:
  "nutrients (update_moisture_simple sm soil weather acts plant) = nutrients soil"
  by (simp add: update_moisture_simple_def Let_def)

lemma update_nutrients_simple_range:
  "0 \<le> nutrients (update_nutrients_simple sm soil weather acts plant) \<and>
   nutrients (update_nutrients_simple sm soil weather acts plant) \<le> 1.5"
  by (simp add: update_nutrients_simple_def Let_def max_def min_def)

lemma update_nutrients_simple_moisture:
  "moisture (update_nutrients_simple sm soil weather acts plant) = moisture soil"
  by (simp add: update_nutrients_simple_def Let_def)

lemma update_one_soil_range:
  "soil_in_range (update_nutrients_simple sm (update_moisture_simple sm soil weather acts pl)
                    weather acts pl)"
  unfolding soil_in_range_def
  using update_nutrients_simple_range [of sm "update_moisture_simple sm soil weather acts pl" weather acts pl]
        update_moisture_simple_range [of sm soil weather acts pl]
  by (simp only: update_nutrients_simple_moisture)

lemma update_soil_from_range:
  "list_all soil_in_range (update_soil_from sm weather acts pls i soils)"
proof (induction soils arbitrary: i)
  case Nil
  show ?case by simp
next
  case (Cons soil rest)
  show ?case
    using Cons.IH [of "Suc i"] by (simp add: Let_def update_one_soil_range)
qed

text \<open>
  Claim C4. After the soil update of a step, every pot has soil moisture in \<open>[0, 1.3]\<close> and
  nutrients in \<open>[0, 1.5]\<close>: for the list produced by \<^verbatim>\<open>update_soil\<close>, for the soil
  states recorded in the step result, and for the soil manager the step leaves behind.
  Nothing is assumed about the state before the update.
\<close>

theorem soil_clamp:
  "list_all soil_in_range (soil_states (update_soil sm weather acts pls)) \<and>
   list_all soil_in_range (result_soil_states (fst (step_simulation sim step g))) \<and>
   list_all soil_in_range (soil_states (soil_manager (fst (snd (step_simulation sim step g)))))"
  by (simp add: step_simulation_def Let_def update_soil_def update_soil_from_range split: prod.splits)

lemma irrigate_failed:
  assumes "pump_is_failed pump" "cstep < pump_failure_end_step pump"
  shows "irrigate pump pid duration cstep g = (0, pump, g)"
  using assms by (simp add: irrigate_def)

lemma apply_fertilizer_failed:
  assumes "fert_is_failed f" "cstep < fert_failure_end_step f"
  shows "apply_fertilizer f pid amount cstep g = (0, f, g)"
  using assms by (simp add: apply_fertilizer_def)

lemma irrigate_recovering:
  assumes "pump_is_failed pump" "cstep \<ge> pump_failure_end_step pump"
  shows "fst (irrigate pump pid duration cstep g) =
           (if fst (random_random g) < pump_failure_probability pump then 0 else water_effect pump)"
  using assms by (auto simp: irrigate_def Let_def split: prod.splits)

lemma apply_fertilizer_recovering:
  assumes "fert_is_failed f" "cstep \<ge> fert_failure_end_step f"
  shows "fst (apply_fertilizer f pid amount cstep g) =
           (if fst (random_random g) < fert_failure_probability f then 0 else fertilizer_effect f)"
  using assms by (auto simp: apply_fertilizer_def Let_def split: prod.splits)

text \<open>
  Claim C5. While a device (pump or dispenser) is failed and the current step is below its
  \<^verbatim>\<open>failure_end_step\<close>, a call returns effect exactly \<open>0\<close>, appends a log entry with
  \<^verbatim>\<open>success = False\<close>, leaves the device failed and draws no random number. When the step
  has reached \<^verbatim>\<open>failure_end_step\<close>, the call succeeds with the configured effect unless the
  fresh fault draw falls below the failure probability.
\<close>

theorem failed_device:
  "(pump_is_failed (water_pump dm) \<and> cstep < pump_failure_end_step (water_pump dm) \<longrightarrow>
      execute_watering dm pid duration cstep g =
        (0, dm\<lparr>operation_log := operation_log dm @
               [\<lparr>op_step = cstep, op_action = ''water'', op_pot_id = pid,
                 op_requested = duration, op_actual_effect = 0, op_success = False\<rparr>]\<rparr>, g)) \<and>
   (fert_is_failed (fertilizer dm) \<and> cstep < fert_failure_end_step (fertilizer dm) \<longrightarrow>
      execute_fertilizing dm pid amount cstep g =
        (0, dm\<lparr>operation_log := operation_log dm @
               [\<lparr>op_step = cstep, op_action = ''fertilize'', op_pot_id = pid,
                 op_requested = amount, op_actual_effect = 0, op_success = False\<rparr>]\<rparr>, g)) \<and>
   (pump_is_failed (water_pump dm) \<and> cstep \<ge> pump_failure_end_step (water_pump dm) \<longrightarrow>
      fst (execute_watering dm pid duration cstep g) =
        (if fst (random_random g) < pump_failure_probability (water_pump dm) then 0
         else water_effect (water_pump dm))) \<and>
   (fert_is_failed (fertilizer dm) \<and> cstep \<ge> fert_failure_end_step (fertilizer dm) \<longrightarrow>
      fst (execute_fertilizing dm pid amount cstep g) =
        (if fst (random_random g) < fert_failure_probability (fertilizer dm) then 0
         else fertilizer_effect (fertilizer dm)))"
proof (intro conjI impI)
  assume a: "pump_is_failed (water_pump dm) \<and> cstep < pump_failure_end_step (water_pump dm)"
  show "execute_watering dm pid duration cstep g =
        (0, dm\<lparr>operation_log := operation_log dm @
               [\<lparr>op_step = cstep, op_action = ''water'', op_pot_id = pid,
                 op_requested = duration, op_actual_effect = 0, op_success = False\<rparr>]\<rparr>, g)"
    using a by (simp add: execute_watering_def irrigate_failed)
next
  assume a: "fert_is_failed (fertilizer dm) \<and> cstep < fert_failure_end_step (fertilizer dm)"
  show "execute_fertilizing dm pid amount cstep g =
        (0, dm\<lparr>operation_log := operation_log dm @
               [\<lparr>op_step = cstep, op_action = ''fertilize'', op_pot_id = pid,
                 op_requested = amount, op_actual_effect = 0, op_success = False\<rparr>]\<rparr>, g)"
    using a by (simp add: execute_fertilizing_def apply_fertilizer_failed)
next
  assume a: "pump_is_failed (water_pump dm) \<and> cstep \<ge> pump_failure_end_step (water_pump dm)"
  show "fst (execute_watering dm pid duration cstep g) =
        (if fst (random_random g) < pump_failure_probability (water_pump dm) then 0
         else water_effect (water_pump dm))"
    using a irrigate_recovering [of "water_pump dm" cstep pid duration g]
    by (auto simp: execute_watering_def split: prod.splits)
next
  assume a: "fert_is_failed (fertilizer dm) \<and> cstep \<ge> fert_failure_end_step (fertilizer dm)"
  show "fst (execute_fertilizing dm pid amount cstep g) =
        (if fst (random_random g) < fert_failure_probability (fertilizer dm) then 0
         else fertilizer_effect (fertilizer dm))"
    using a apply_fertilizer_recovering [of "fertilizer dm" cstep pid amount g]
    by (auto simp: execute_fertilizing_def split: prod.splits)
qed


theorem failed_device_witness:
  "fst (execute_watering failed_devices 2 0.5 0 calm_rng) = 0 \<and>
   \<not> op_success (last (operation_log (fst (snd (execute_watering failed_devices 2 0.5 0 calm_rng))))) \<and>
   fst (execute_fertilizing failed_devices 2 1 0 calm_rng) = 0 \<and>
   \<not> op_success (last (operation_log (fst (snd (execute_fertilizing failed_devices 2 1 0 calm_rng))))) \<and>
   fst (execute_watering failed_devices 2 0.5 9 calm_rng) = 0.25 \<and>
   fst (execute_fertilizing failed_devices 2 1 9 calm_rng) = 0.2"
  using failed_device [where dm = failed_devices and cstep = 0 and pid = 2
                          and duration = "0.5" and g = calm_rng and amount = 1]
        failed_device [where dm = failed_devices and cstep = 9 and pid = 2
                          and duration = "0.5" and g = calm_rng and amount = 1]
  by (simp add: failed_devices_def device_init_defs calm_rng_def rng_defs)

lemma irrigate_reliable:
  assumes "pump_failure_probability pump = 0" "\<not> pump_is_failed pump"
  shows "irrigate pump pid duration cstep g =
           (water_effect pump,
            pump\<lparr>total_water_used := total_water_used pump + water_effect pump,
                 operation_count := operation_count pump + 1\<rparr>,
            snd (random_random g))"
proof -
  have "\<not> fst (random_random g) < 0" using random_random_range [of g] by simp
  then show ?thesis using assms
    by (auto simp: irrigate_def Let_def split: prod.splits)
qed

lemma execute_watering_reliable:
  assumes "pump_reliable w dm"
  shows "fst (execute_watering dm pid duration cstep g) = w \<and>
         pump_reliable w (fst (snd (execute_watering dm pid duration cstep g))) \<and>
         operation_log (fst (snd (execute_watering dm pid duration cstep g))) =
           operation_log dm @
             [\<lparr>op_step = cstep, op_action = ''water'', op_pot_id = pid,
               op_requested = duration, op_actual_effect = w, op_success = (w > 0)\<rparr>]"
  using assms
  by (simp add: execute_watering_def pump_reliable_def irrigate_reliable)

lemma execute_water_decisions_reliable:
  assumes "pump_reliable w dm"
  shows "list_all (\<lambda>a. action_actual_effect a = w \<and> action_success a = (w > 0))
           (fst (execute_water_decisions dm step ds g)) \<and>
         pump_reliable w (fst (snd (execute_water_decisions dm step ds g)))"
  using assms
proof (induction ds arbitrary: dm g)
  case Nil
  then show ?case by simp
next
  case (Cons d rest)
  let ?dur = "case decision_param d of Some x \<Rightarrow> x | None \<Rightarrow> 0.5"
  obtain e dm1 g1 where ex: "execute_watering dm (decision_pot_id d) ?dur step g = (e, dm1, g1)"
    by (cases "execute_watering dm (decision_pot_id d) ?dur step g") auto
  from execute_watering_reliable [OF Cons.prems, of "decision_pot_id d" ?dur step g] ex
  have e: "e = w" and r1: "pump_reliable w dm1" by simp_all
  obtain acts dm2 g2 where rec: "execute_water_decisions dm1 step rest g1 = (acts, dm2, g2)"
    by (cases "execute_water_decisions dm1 step rest g1") auto
  from Cons.IH [OF r1, of g1] rec
  have ih: "list_all (\<lambda>a. action_actual_effect a = w \<and> action_success a = (w > 0)) acts"
    and r2: "pump_reliable w dm2" by simp_all
  show ?case using ex rec e ih r2 by (simp add: Let_def)
qed





lemma execute_fertilizing_water_pump:
  "water_pump (fst (snd (execute_fertilizing dm pid amount cstep g))) = water_pump dm"
  by (simp add: execute_fertilizing_def split: prod.splits)

lemma execute_fertilize_decisions_water_pump:
  "water_pump (fst (snd (execute_fertilize_decisions dm step ds g))) = water_pump dm"
proof (induction ds arbitrary: dm g)
  case Nil
  show ?case by simp
next
  case (Cons d rest)
  let ?amt = "case decision_param d of Some x \<Rightarrow> x | None \<Rightarrow> 1"
  obtain e dm1 g1 where ex: "execute_fertilizing dm (decision_pot_id d) ?amt step g = (e, dm1, g1)"
    by (cases "execute_fertilizing dm (decision_pot_id d) ?amt step g") auto
  have "water_pump dm1 = water_pump dm"
    using execute_fertilizing_water_pump [of dm "decision_pot_id d" ?amt step g] ex by simp
  then show ?case using ex Cons.IH [of dm1 g1] by (auto simp: Let_def split: prod.splits)
qed

lemma execute_device_actions_reliable:
  assumes "pump_reliable w dm" "0 < w"
  shows "list_all (water_ok w) (actions_water (fst (execute_device_actions dm ds step g))) \<and>
         pump_reliable w (fst (snd (execute_device_actions dm ds step g)))"
proof -
  obtain wacts dm1 g1 where a: "execute_water_decisions dm step (decisions_water ds) g = (wacts, dm1, g1)"
    by (cases "execute_water_decisions dm step (decisions_water ds) g") auto
  obtain facts dm2 g2 where b: "execute_fertilize_decisions dm1 step (decisions_fertilize ds) g1 = (facts, dm2, g2)"
    by (cases "execute_fertilize_decisions dm1 step (decisions_fertilize ds) g1") auto
  from execute_water_decisions_reliable [OF assms(1), of step "decisions_water ds" g] a assms(2)
  have w1: "list_all (water_ok w) wacts" and r1: "pump_reliable w dm1"
    by (simp_all add: water_ok_def [abs_def])
  have "water_pump dm2 = water_pump dm1"
    using execute_fertilize_decisions_water_pump [of dm1 step "decisions_fertilize ds" g1] b by simp
  then have r2: "pump_reliable w dm2" using r1 by (simp add: pump_reliable_def)
  show ?thesis using a b w1 r2 by (simp add: execute_device_actions_def)
qed

lemma update_soil_from_length:
  "length (update_soil_from sm weather acts pls i soils) = length soils"
  by (induction soils arbitrary: i) (simp_all add: Let_def)

lemma step_simulation_devices:
  assumes "step_simulation sim step g = (r, sim', g')"
  shows "execute_device_actions
           ((device_manager sim)\<lparr>sensors := fst (snd
              (get_readings (sensors (device_manager sim)) (plants sim)
                 (fst (step_weather (weather_sim sim) step g)) step
                 (snd (snd (step_weather (weather_sim sim) step g)))))\<rparr>)
           (result_student_decisions r) step
           (snd (snd (get_readings (sensors (device_manager sim)) (plants sim)
                 (fst (step_weather (weather_sim sim) step g)) step
                 (snd (snd (step_weather (weather_sim sim) step g)))))) =
           (result_device_actions r, device_manager sim', g')"
    and "result_sensor_readings r =
           fst (get_readings (sensors (device_manager sim)) (plants sim)
                 (fst (step_weather (weather_sim sim) step g)) step
                 (snd (snd (step_weather (weather_sim sim) step g))))"
    and "step_results sim' = step_results sim"
    and "result_step r = step"
    and "length (plants sim') = min (length (plants sim)) (length (soil_states (soil_manager sim)))"
  using assms
  by (auto simp: step_simulation_def get_sensor_readings_def Let_def update_soil_def
           update_soil_from_length split: prod.splits)

lemma step_simulation_reliable:
  assumes rel: "pump_reliable w (device_manager sim)" and pos: "0 < w"
      and st: "step_simulation sim step g = (r, sim', g')"
  shows "list_all (water_ok w) (actions_water (result_device_actions r)) \<and>
         pump_reliable w (device_manager sim')"
proof -
  let ?rd = "get_readings (sensors (device_manager sim)) (plants sim)
                 (fst (step_weather (weather_sim sim) step g)) step
                 (snd (snd (step_weather (weather_sim sim) step g)))"
  let ?dm = "(device_manager sim)\<lparr>sensors := fst (snd ?rd)\<rparr>"
  have "pump_reliable w ?dm" using rel by (simp add: pump_reliable_def)
  from execute_device_actions_reliable [OF this pos, of "result_student_decisions r" step "snd (snd ?rd)"]
       step_simulation_devices(1) [OF st]
  show ?thesis by simp
qed

lemma run_steps_reliable:
  assumes "pump_reliable w (device_manager sim)" "0 < w" "results_water_ok w (step_results sim)"
  shows "results_water_ok w (step_results (fst (run_steps sim steps g))) \<and>
         pump_reliable w (device_manager (fst (run_steps sim steps g)))"
  using assms
proof (induction steps arbitrary: sim g)
  case Nil
  then show ?case by simp
next
  case (Cons step rest)
  obtain r sim' g' where st: "step_simulation sim step g = (r, sim', g')"
    by (cases "step_simulation sim step g") auto
  from step_simulation_reliable [OF Cons.prems(1) Cons.prems(2) st]
  have ok: "list_all (water_ok w) (actions_water (result_device_actions r))"
    and rel: "pump_reliable w (device_manager sim')" by simp_all
  let ?sim = "sim'\<lparr>step_results := step_results sim' @ [r]\<rparr>"
  have a: "pump_reliable w (device_manager ?sim)" using rel by simp
  have b: "results_water_ok w (step_results ?sim)"
    using Cons.prems(3) ok step_simulation_devices(3) [OF st]
    by (simp add: results_water_ok_def)
  show ?case using Cons.IH [OF a Cons.prems(2) b, of g'] st by simp
qed

text \<open>
  Claim C7. With the pump's failure probability forced to \<open>0\<close> (and a positive configured
  water effect), every watering request, of any duration, returns the configured constant
  and is logged as a success; in a run of any number of steps every logged water action is
  a success with that effect.
\<close>

theorem pump_never_fails:
  assumes "pump_failure_probability (water_pump (device_manager sim)) = 0"
      and "\<not> pump_is_failed (water_pump (device_manager sim))"
      and "0 < water_effect (water_pump (device_manager sim))"
  shows "fst (execute_watering (device_manager sim) pid duration cstep g) =
           water_effect (water_pump (device_manager sim)) \<and>
         op_success (last (operation_log (fst (snd
           (execute_watering (device_manager sim) pid duration cstep g))))) \<and>
         list_all (\<lambda>r. list_all (\<lambda>a. action_success a \<and>
                          action_actual_effect a = water_effect (water_pump (device_manager sim)))
                      (actions_water (result_device_actions r)))
           (step_results (fst (snd (run_simulation sim total_steps g))))"
proof -
  let ?w = "water_effect (water_pump (device_manager sim))"
  have rel: "pump_reliable ?w (device_manager sim)" using assms by (simp add: pump_reliable_def)
  let ?sim0 = "sim\<lparr>is_running := True, step_results := []\<rparr>"
  have rel0: "pump_reliable ?w (device_manager ?sim0)" using rel by simp
  have ok0: "results_water_ok ?w (step_results ?sim0)" by (simp add: results_water_ok_def)
  from run_steps_reliable [OF rel0 assms(3) ok0, of "map int [0 ..< nat total_steps]" g]
  have "results_water_ok ?w (step_results (fst (snd (run_simulation sim total_steps g))))"
    by (auto simp: run_simulation_def Let_def split: prod.splits)
  then have c: "list_all (\<lambda>r. list_all (\<lambda>a. action_success a \<and> action_actual_effect a = ?w)
                      (actions_water (result_device_actions r)))
           (step_results (fst (snd (run_simulation sim total_steps g))))"
    by (simp add: results_water_ok_def water_ok_def [abs_def] conj_commute)
  from execute_watering_reliable [OF rel, of pid duration cstep g] assms(3) c
  show ?thesis by simp
qed


theorem pump_never_fails_witness:
  "pump_failure_probability (water_pump (device_manager reliable_sim)) = 0 \<and>
   \<not> pump_is_failed (water_pump (device_manager reliable_sim)) \<and>
   fst (execute_watering (device_manager reliable_sim) 2 0.5 7 calm_rng) = 0.25 \<and>
   op_success (last (operation_log (fst (snd
           (execute_watering (device_manager reliable_sim) 2 0.5 7 calm_rng))))) \<and>
   list_all (\<lambda>r. list_all (\<lambda>a. action_success a \<and> action_actual_effect a = 0.25)
                      (actions_water (result_device_actions r)))
           (step_results (fst (snd (run_simulation reliable_sim 3 calm_rng))))"
proof -
  have h1: "pump_failure_probability (water_pump (device_manager reliable_sim)) = 0"
    by (simp add: reliable_sim_def GardenSimulator_init_def device_init_defs)
  have h2: "\<not> pump_is_failed (water_pump (device_manager reliable_sim))"
    by (simp add: reliable_sim_def GardenSimulator_init_def device_init_defs)
  have w: "water_effect (water_pump (device_manager reliable_sim)) = 0.25"
    by (simp add: reliable_sim_def GardenSimulator_init_def device_init_defs)
  have h3: "0 < water_effect (water_pump (device_manager reliable_sim))"
    by (simp add: w)
  show ?thesis
    using pump_never_fails [OF h1 h2 h3, where pid = 2 and duration = "0.5" and cstep = 7
                                 and g = calm_rng and total_steps = 3] h1 h2
    by (simp only: w) simp
qed









lemma trigger_failures_entries:
  assumes "trigger_failures p s ps fs g = (fs', g')"
  shows "fs' k = fs k \<or> (fs k = None \<and> fs' k = Some (s + 1))"
  using assms
proof (induction ps arbitrary: fs g)
  case Nil
  then show ?case by simp
next
  case (Cons pid rest)
  show ?case
  proof (cases "fs pid = None")
    case False
    with Cons.prems have "trigger_failures p s rest fs g = (fs', g')" by simp
    from Cons.IH [OF this] show ?thesis .
  next
    case True
    obtain r g1 where rr: "random_random g = (r, g1)" by (cases "random_random g") auto
    show ?thesis
    proof (cases "r < p")
      case False
      with Cons.prems True rr have "trigger_failures p s rest fs g1 = (fs', g')" by simp
      from Cons.IH [OF this] show ?thesis .
    next
      case hit: True
      with Cons.prems True rr
      have "trigger_failures p s rest (fs(pid \<mapsto> s + 1)) g1 = (fs', g')" by simp
      from Cons.IH [OF this]
      have "fs' k = (fs(pid \<mapsto> s + 1)) k \<or> ((fs(pid \<mapsto> s + 1)) k = None \<and> fs' k = Some (s + 1))" .
      then show ?thesis using True by (cases "k = pid") auto
    qed
  qed
qed

lemma pot_reading_mode:
  "(fst (fst (pot_reading fs perr w s i pl g)) = FaultMode) = (fs i \<noteq> None)"
  by (simp add: pot_reading_def split: prod.splits)

lemma pot_readings_modes:
  assumes "pot_readings fs perr w s i pls g = (entries, g')"
  shows "length entries = length pls \<and>
         (\<forall>k < length pls. (fst (entries ! k) = FaultMode) = (fs (i + k) \<noteq> None))"
  using assms
proof (induction pls arbitrary: i g entries g')
  case Nil
  then show ?case by simp
next
  case (Cons pl rest)
  obtain entry g1 where hd: "pot_reading fs perr w s i pl g = (entry, g1)"
    by (cases "pot_reading fs perr w s i pl g") auto
  have mode: "(fst entry = FaultMode) = (fs i \<noteq> None)"
    using pot_reading_mode [of fs perr w s i pl g] hd by simp
  obtain es g2 where tl: "pot_readings fs perr w s (Suc i) rest g1 = (es, g2)"
    by (cases "pot_readings fs perr w s (Suc i) rest g1") auto
  have ent: "entries = entry # es"
    using Cons.prems hd tl by simp
  from Cons.IH [OF tl]
  have len: "length es = length rest"
    and ih: "\<forall>k < length rest. (fst (es ! k) = FaultMode) = (fs (Suc i + k) \<noteq> None)" by simp_all
  show ?case
  proof (intro conjI allI impI)
    show "length entries = length (pl # rest)" using ent len by simp
  next
    fix k assume "k < length (pl # rest)"
    then show "(fst (entries ! k) = FaultMode) = (fs (i + k) \<noteq> None)"
      using ent mode ih by (cases k) auto
  qed
qed

lemma recover_sensors_due:
  assumes "sensors_due sa s"
  shows "recover_sensors (sensor_failures sa) s = Map.empty"
  using assms by (auto simp: recover_sensors_def sensors_due_def split: option.splits)

text \<open>
  One call of \<^verbatim>\<open>get_readings\<close>: a fault entered in the call ends at \<open>s + 1\<close>; when every
  fault recorded before the call is due, the faults recorded after it are exactly the ones
  entered in it, they are the pots read in fault mode, and the next step recovers them.
\<close>

lemma get_readings_faults:
  assumes call: "get_readings sa pls w s g = (rs, sa', g')"
  shows "(\<forall>k. recover_sensors (sensor_failures sa) s k = None \<and> sensor_failures sa' k \<noteq> None
               \<longrightarrow> sensor_failures sa' k = Some (s + 1)) \<and>
         (sensors_due sa s \<longrightarrow>
           (\<forall>k e. sensor_failures sa' k = Some e \<longrightarrow> e = s + 1) \<and>
           (\<forall>k < length pls. (fst (pots rs ! k) = FaultMode) = (sensor_failures sa' k = Some (s + 1))) \<and>
           recover_sensors (sensor_failures sa') (s + 1) = Map.empty \<and>
           sensors_due sa' (s + 1))"
proof -
  let ?fs1 = "recover_sensors (sensor_failures sa) s"
  obtain fs2 g1 where tr:
    "trigger_failures (sensor_failure_probability sa) s [0 ..< length pls] ?fs1 g = (fs2, g1)"
    by (cases "trigger_failures (sensor_failure_probability sa) s [0 ..< length pls] ?fs1 g") auto
  obtain entries g2 where pr:
    "pot_readings fs2 (sensor_error_probability sa) w s 0 pls g1 = (entries, g2)"
    by (cases "pot_readings fs2 (sensor_error_probability sa) w s 0 pls g1") auto
  have fs': "sensor_failures sa' = fs2" and rs: "pots rs = entries"
    using call tr pr by (auto simp: get_readings_def Let_def)
  have ent: "fs2 k = ?fs1 k \<or> (?fs1 k = None \<and> fs2 k = Some (s + 1))" for k
    using trigger_failures_entries [OF tr] .
  have first: "\<forall>k. ?fs1 k = None \<and> sensor_failures sa' k \<noteq> None \<longrightarrow> sensor_failures sa' k = Some (s + 1)"
    using ent fs' by metis
  have second: "sensors_due sa s \<longrightarrow>
           (\<forall>k e. sensor_failures sa' k = Some e \<longrightarrow> e = s + 1) \<and>
           (\<forall>k < length pls. (fst (pots rs ! k) = FaultMode) = (sensor_failures sa' k = Some (s + 1))) \<and>
           recover_sensors (sensor_failures sa') (s + 1) = Map.empty \<and>
           sensors_due sa' (s + 1)"
  proof
    assume due: "sensors_due sa s"
    have empty: "?fs1 = Map.empty" using recover_sensors_due [OF due] .
    have all: "fs2 k = Some e \<Longrightarrow> e = s + 1" for k e
      using ent [of k] empty by auto
    have modes: "\<forall>k < length pls. (fst (entries ! k) = FaultMode) = (fs2 (0 + k) \<noteq> None)"
      using pot_readings_modes [OF pr] by simp
    have a: "\<forall>k e. sensor_failures sa' k = Some e \<longrightarrow> e = s + 1" using all fs' by auto
    have b: "\<forall>k < length pls. (fst (pots rs ! k) = FaultMode) = (sensor_failures sa' k = Some (s + 1))"
      using modes all fs' rs by auto
    have d: "sensors_due sa' (s + 1)" using a by (auto simp: sensors_due_def)
    have c: "recover_sensors (sensor_failures sa') (s + 1) = Map.empty"
      using recover_sensors_due [OF d] .
    show "(\<forall>k e. sensor_failures sa' k = Some e \<longrightarrow> e = s + 1) \<and>
           (\<forall>k < length pls. (fst (pots rs ! k) = FaultMode) = (sensor_failures sa' k = Some (s + 1))) \<and>
           recover_sensors (sensor_failures sa') (s + 1) = Map.empty \<and>
           sensors_due sa' (s + 1)"
      using a b c d by blast
  qed
  show ?thesis using first second by (rule conjI)
qed

text \<open>
  Claim C6, evaluated on the code. The claim gives a pump fault a duration of one step
  (recovery at the first call of step \<open>s + 1\<close> or later). \<^verbatim>\<open>WaterPump.irrigate\<close> stores the
  constant \<open>1\<close> in \<^verbatim>\<open>failure_end_step\<close>, not \<open>current_step + 1\<close>: a fault drawn at step
  \<open>5\<close> leaves the pump failed with end step \<open>1\<close>, and the next watering call of the same
  step \<open>5\<close> passes the recovery check and succeeds.
\<close>

theorem pump_fault_ends_within_step:
  "pump_is_failed (water_pump (fst (snd
      (execute_watering (DeviceManager_init example_config) 0 0.5 5 fault_then_calm)))) \<and>
   pump_failure_end_step (water_pump (fst (snd
      (execute_watering (DeviceManager_init example_config) 0 0.5 5 fault_then_calm)))) = 1 \<and>
   map action_step (fst (execute_water_decisions (DeviceManager_init example_config) 5
                           two_waterings fault_then_calm)) = [5, 5] \<and>
   map action_success (fst (execute_water_decisions (DeviceManager_init example_config) 5
                           two_waterings fault_then_calm)) = [False, True]"
  by (simp add: execute_watering_def irrigate_def device_init_defs two_waterings_def
      fault_then_calm_def rng_defs Let_def)

lemma calculate_score_fst:
  "fst (calculate_score ev step pls ds acts) =
     max 0 (calculate_biomass_score pls * weight_total_biomass ev
            + calculate_health_score pls * weight_plant_health ev
            + calculate_penalties_enhanced ev pls ds acts)"
  by (simp add: calculate_score_def Let_def)

subsection \<open>Plant health and death\<close>

lemma update_stress_simple_fields:
  "health (update_stress_simple p) = health p"
  "phenology (update_stress_simple p) = phenology p"
  by (simp_all add: update_stress_simple_def Let_def)

lemma update_growth_simple_fields:
  "health (update_growth_simple p) = health p"
  "phenology (update_growth_simple p) = phenology p"
  by (simp_all add: update_growth_simple_def Let_def)

lemma apply_health_change_range:
  "0 \<le> health (apply_health_change p c) \<and> health (apply_health_change p c) \<le> 100"
  by (simp add: apply_health_change_def Let_def max_def min_def)

lemma apply_health_change_phenology:
  "phenology (apply_health_change p c) =
     (if health (apply_health_change p c) \<le> 0 then DEAD else phenology p)"
  by (simp add: apply_health_change_def Let_def max_def min_def)

lemma update_health_simple_cases:
  "update_health_simple p = apply_health_change p (Radish_health_change p) \<or>
   update_health_simple p = apply_health_change p (Plant_health_change p)"
  by (cases "species_of p") (simp_all add: update_health_simple_def)

lemma update_health_simple_range:
  "0 \<le> health (update_health_simple p) \<and> health (update_health_simple p) \<le> 100"
  using update_health_simple_cases [of p] apply_health_change_range by metis

lemma update_health_simple_phenology:
  "phenology (update_health_simple p) =
     (if health (update_health_simple p) \<le> 0 then DEAD else phenology p)"
  using update_health_simple_cases [of p] apply_health_change_phenology by metis

lemma update_phenology_health:
  "health (update_phenology p) = health p"
  by (cases "species_of p")
     (simp_all add: update_phenology_def Plant_update_phenology_def
        SwissChard_update_phenology_def Nasturtium_update_phenology_def)

lemma update_phenology_dead_iff:
  "(phenology (update_phenology p) = DEAD) = (health p \<le> 0)"
  by (cases "species_of p")
     (simp_all add: update_phenology_def Plant_update_phenology_def
        SwissChard_update_phenology_def Nasturtium_update_phenology_def)

lemma update_health_range:
  "0 \<le> health (update p w soil step) \<and> health (update p w soil step) \<le> 100"
  by (simp add: update_def Let_def update_stress_simple_fields update_growth_simple_fields
      update_health_simple_range)

lemma update_dead_iff:
  "(phenology (update p w soil step) = DEAD) =
     (health p \<le> 0 \<or> health (update p w soil step) \<le> 0)"
proof -
  let ?p3 = "p\<lparr>step_count := step, days_alive := step div 8,
               soil_moisture := (case dict_moisture soil of Some m \<Rightarrow> m | None \<Rightarrow> soil_moisture p),
               nutrient_level := (case dict_nutrients soil of Some n \<Rightarrow> n | None \<Rightarrow> nutrient_level p)\<rparr>"
  let ?q = "update_health_simple (update_phenology ?p3)"
  have h: "health (update p w soil step) = health ?q"
    by (simp add: update_def Let_def update_stress_simple_fields update_growth_simple_fields
        split: option.splits)
  have ph: "phenology (update p w soil step) = phenology ?q"
    by (simp add: update_def Let_def update_stress_simple_fields update_growth_simple_fields
        split: option.splits)
  have "phenology ?q = (if health ?q \<le> 0 then DEAD else phenology (update_phenology ?p3))"
    using update_health_simple_phenology [of "update_phenology ?p3"] .
  moreover have "(phenology (update_phenology ?p3) = DEAD) = (health p \<le> 0)"
    using update_phenology_dead_iff [of ?p3] by simp
  ultimately show ?thesis using h ph by auto
qed

lemmas plant_defs = update_def update_phenology_def Plant_update_phenology_def
  update_health_simple_def Plant_health_change_def apply_health_change_def
  update_growth_simple_def update_stress_simple_def Let_def

lemma neglect_kills:
  "update_sequence (create_plant Lettuce example_plant_config 0) clear_weather neglect = dead_lettuce"
  by (simp add: neglect_def dead_lettuce_def create_plant_def example_plant_config_def
      dry_soil_def plant_defs)

lemma update_sequence_append:
  "update_sequence p w (xs @ ys) = update_sequence (update_sequence p w xs) w ys"
  by (induction xs arbitrary: p) auto

lemma dead_lettuce_watered:
  "get_status (update dead_lettuce clear_weather good_soil 10) =
     \<lparr>status_soil_moisture = 0.5, status_nutrient_level = 0.5, status_health = 3,
      status_biomass = 0.1126, status_phenology = DEAD, status_days_alive = 1,
      status_stress_level = 0\<rparr>"
  by (simp add: dead_lettuce_def create_plant_def example_plant_config_def
      good_soil_def plant_defs get_status_def)

lemma dead_lettuce_watered_twice:
  "phenology (update (update dead_lettuce clear_weather good_soil 10) clear_weather good_soil 11)
     = SEEDLING"
  by (simp add: dead_lettuce_def create_plant_def example_plant_config_def
      good_soil_def plant_defs)

text \<open>
  Claim C1, evaluated on the code. The claim makes \<open>dead\<close> absorbing. The health update
  runs for a dead plant as for a live one: a lettuce left on dry soil for ten updates is
  dead with health \<open>0\<close>; the next update on good soil adds the recovery bonus to its
  health, and the update after that finds a positive health and assigns a live phenology
  from the day count.
\<close>

theorem dead_plant_revives:
  "phenology (update_sequence (create_plant Lettuce example_plant_config 0) clear_weather neglect)
     = DEAD \<and>
   phenology (update_sequence (create_plant Lettuce example_plant_config 0) clear_weather
                (neglect @ [(good_soil, 10), (good_soil, 11)])) = SEEDLING"
  by (simp add: update_sequence_append neglect_kills dead_lettuce_watered_twice)
     (simp add: dead_lettuce_def)

text \<open>
  Claim C2, evaluated on the code. The claim ties \<open>phenology = dead\<close> to \<open>health \<le> 0\<close> in
  every snapshot. Health stays in \<open>[0, 100]\<close> and no health implies dead (lemmas
  \<open>update_health_range\<close> and \<open>update_dead_iff\<close>), but the snapshot returned by the first
  update on good soil after the plant died shows a dead plant with health \<open>3\<close>.
\<close>

theorem dead_snapshot_has_health:
  "status_phenology (get_status (update_sequence (create_plant Lettuce example_plant_config 0)
       clear_weather (neglect @ [(good_soil, 10)]))) = DEAD \<and>
   status_health (get_status (update_sequence (create_plant Lettuce example_plant_config 0)
       clear_weather (neglect @ [(good_soil, 10)]))) = 3"
  by (simp add: update_sequence_append neglect_kills dead_lettuce_watered)

text \<open>
  Claim C3, evaluated on the code. The score is \<open>max 0 (base_score + penalty)\<close> with the
  terms the claim lists, but the term for moisture above \<open>1.0\<close> enters the penalty with a
  positive sign while the configured penalty constants are negative: with one live lettuce
  and no actions the penalty is \<open>+10\<close> at moisture \<open>1.2\<close>, and the score is \<open>60.1\<close> against
  \<open>50.1\<close> for the same plant at moisture \<open>1.0\<close>. The penalty nets the score upward.
\<close>

theorem excess_moisture_raises_score:
  "calculate_penalties_enhanced (EvaluationEngine_init example_config) [soaked_plant]
     no_decisions no_actions = 10 \<and>
   fst (calculate_score (EvaluationEngine_init example_config) 7 [soaked_plant]
          no_decisions no_actions) = 60.1 \<and>
   fst (calculate_score (EvaluationEngine_init example_config) 7 [moist_plant]
          no_decisions no_actions) = 50.1"
  by (simp add: calculate_score_fst calculate_biomass_score_def calculate_health_score_def
      calculate_penalties_enhanced_def EvaluationEngine_init_def example_config_def
      soaked_plant_def moist_plant_def create_plant_def is_alive_def no_actions_def Let_def)

subsection \<open>The generator's tape is read, never written\<close>

lemma random_random_tape: "random_random g = (r, g') \<Longrightarrow> tape g' = tape g"
  by (auto simp: random_random_def raw_draw_def)

lemma random_randint_tape: "random_randint a b g = (r, g') \<Longrightarrow> tape g' = tape g"
  by (auto simp: random_randint_def raw_draw_def)

lemma random_choice_tape: "random_choice xs g = (r, g') \<Longrightarrow> tape g' = tape g"
  by (auto simp: random_choice_def raw_draw_def)

lemma random_gauss_tape: "random_gauss mu sigma g = (r, g') \<Longrightarrow> tape g' = tape g"
  by (auto simp: random_gauss_def raw_draw_def)

lemma step_weather_tape: "step_weather ws step g = (w, ws', g') \<Longrightarrow> tape g' = tape g"
  by (auto simp: step_weather_def generate_weather_def generate_temperature_def
        generate_rainfall_def Let_def split: prod.splits if_splits
        dest!: random_random_tape random_gauss_tape)

lemma trigger_failures_tape:
  "trigger_failures p s ps fs g = (fs', g') \<Longrightarrow> tape g' = tape g"
proof (induction ps arbitrary: fs g)
  case Nil
  then show ?case by simp
next
  case (Cons k ks)
  show ?case
  proof (cases "fs k = None")
    case False
    with Cons.prems have "trigger_failures p s ks fs g = (fs', g')" by simp
    from Cons.IH [OF this] show ?thesis .
  next
    case True
    obtain r g1 where rr: "random_random g = (r, g1)" by (cases "random_random g") auto
    have t1: "tape g1 = tape g" using random_random_tape [OF rr] .
    show ?thesis
    proof (cases "r < p")
      case False
      with Cons.prems True rr have "trigger_failures p s ks fs g1 = (fs', g')" by simp
      from Cons.IH [OF this] t1 show ?thesis by simp
    next
      case hit: True
      with Cons.prems True rr
      have "trigger_failures p s ks (fs(k \<mapsto> s + 1)) g1 = (fs', g')" by simp
      from Cons.IH [OF this] t1 show ?thesis by simp
    qed
  qed
qed

lemma generate_faulty_reading_tape:
  "generate_faulty_reading pl w s g = (rd, g') \<Longrightarrow> tape g' = tape g"
  by (auto simp: generate_faulty_reading_def Let_def split: prod.splits if_splits
        dest!: random_random_tape random_choice_tape)

lemma generate_error_reading_tape:
  "generate_error_reading pl w s g = (rd, g') \<Longrightarrow> tape g' = tape g"
  by (auto simp: generate_error_reading_def Let_def split: prod.splits if_splits
        dest!: random_random_tape random_choice_tape)

lemma pot_reading_tape:
  "pot_reading fs perr w s i pl g = (e, g') \<Longrightarrow> tape g' = tape g"
  by (auto simp: pot_reading_def split: prod.splits if_splits
        dest!: random_random_tape generate_faulty_reading_tape generate_error_reading_tape)

lemma pot_readings_tape:
  "pot_readings fs perr w s i pls g = (es, g') \<Longrightarrow> tape g' = tape g"
proof (induction pls arbitrary: i g es g')
  case Nil
  then show ?case by simp
next
  case (Cons pl rest)
  obtain e g1 where hd: "pot_reading fs perr w s i pl g = (e, g1)"
    by (cases "pot_reading fs perr w s i pl g") auto
  obtain es1 g2 where tl: "pot_readings fs perr w s (Suc i) rest g1 = (es1, g2)"
    by (cases "pot_readings fs perr w s (Suc i) rest g1") auto
  have "g' = g2" using Cons.prems hd tl by simp
  then show ?case using Cons.IH [OF tl] pot_reading_tape [OF hd] by simp
qed

lemma get_readings_tape:
  "get_readings sa pls w s g = (rs, sa', g') \<Longrightarrow> tape g' = tape g"
  by (auto simp: get_readings_def Let_def split: prod.splits
        dest!: trigger_failures_tape pot_readings_tape)

lemma irrigate_tape: "irrigate pump pid d s g = (e, pump', g') \<Longrightarrow> tape g' = tape g"
  by (auto simp: irrigate_def Let_def split: prod.splits if_splits dest!: random_random_tape)

lemma apply_fertilizer_tape: "apply_fertilizer f pid d s g = (e, f', g') \<Longrightarrow> tape g' = tape g"
  by (auto simp: apply_fertilizer_def Let_def split: prod.splits if_splits
        dest!: random_random_tape random_randint_tape)

lemma execute_watering_parts:
  "execute_watering dm pid d s g = (e, dm', g') \<Longrightarrow>
     tape g' = tape g \<and> sensors dm' = sensors dm \<and> fertilizer dm' = fertilizer dm"
  by (auto simp: execute_watering_def split: prod.splits dest!: irrigate_tape)

lemma execute_fertilizing_parts:
  "execute_fertilizing dm pid d s g = (e, dm', g') \<Longrightarrow>
     tape g' = tape g \<and> sensors dm' = sensors dm \<and> water_pump dm' = water_pump dm"
  by (auto simp: execute_fertilizing_def split: prod.splits dest!: apply_fertilizer_tape)

lemma execute_water_decisions_parts:
  "execute_water_decisions dm step ds g = (acts, dm', g') \<Longrightarrow>
     tape g' = tape g \<and> sensors dm' = sensors dm"
proof (induction ds arbitrary: dm g acts dm' g')
  case Nil
  then show ?case by simp
next
  case (Cons d rest)
  let ?dur = "case decision_param d of Some x \<Rightarrow> x | None \<Rightarrow> 0.5"
  obtain e dm1 g1 where ex: "execute_watering dm (decision_pot_id d) ?dur step g = (e, dm1, g1)"
    by (cases "execute_watering dm (decision_pot_id d) ?dur step g") auto
  obtain acts2 dm2 g2 where rec: "execute_water_decisions dm1 step rest g1 = (acts2, dm2, g2)"
    by (cases "execute_water_decisions dm1 step rest g1") auto
  have "dm' = dm2 \<and> g' = g2" using Cons.prems ex rec by (simp add: Let_def)
  then show ?case using Cons.IH [OF rec] execute_watering_parts [OF ex] by simp
qed

lemma execute_fertilize_decisions_parts:
  "execute_fertilize_decisions dm step ds g = (acts, dm', g') \<Longrightarrow>
     tape g' = tape g \<and> sensors dm' = sensors dm"
proof (induction ds arbitrary: dm g acts dm' g')
  case Nil
  then show ?case by simp
next
  case (Cons d rest)
  let ?amt = "case decision_param d of Some x \<Rightarrow> x | None \<Rightarrow> 1"
  obtain e dm1 g1 where ex: "execute_fertilizing dm (decision_pot_id d) ?amt step g = (e, dm1, g1)"
    by (cases "execute_fertilizing dm (decision_pot_id d) ?amt step g") auto
  obtain acts2 dm2 g2 where rec: "execute_fertilize_decisions dm1 step rest g1 = (acts2, dm2, g2)"
    by (cases "execute_fertilize_decisions dm1 step rest g1") auto
  have "dm' = dm2 \<and> g' = g2" using Cons.prems ex rec by (simp add: Let_def)
  then show ?case using Cons.IH [OF rec] execute_fertilizing_parts [OF ex] by simp
qed

lemma execute_device_actions_parts:
  "execute_device_actions dm ds step g = (acts, dm', g') \<Longrightarrow>
     tape g' = tape g \<and> sensors dm' = sensors dm"
  by (auto simp: execute_device_actions_def split: prod.splits
        dest!: execute_water_decisions_parts execute_fertilize_decisions_parts)

text \<open>The phases of one step, named.\<close>

lemma step_simulation_parts:
  assumes "step_simulation sim step g = (r, sim', g')"
  obtains weather ws' g1 rs sa' g2 where
    "step_weather (weather_sim sim) step g = (weather, ws', g1)"
    "get_readings (sensors (device_manager sim)) (plants sim) weather step g1 = (rs, sa', g2)"
    "result_sensor_readings r = rs"
    "result_student_decisions r =
       make_student_decisions_with_history (sim\<lparr>current_step := step\<rparr>) rs weather"
    "execute_device_actions ((device_manager sim)\<lparr>sensors := sa'\<rparr>)
       (result_student_decisions r) step g2 = (result_device_actions r, device_manager sim', g')"
    "length (plants sim') = min (length (plants sim)) (length (soil_states (soil_manager sim)))"
    "length (soil_states (soil_manager sim')) = length (soil_states (soil_manager sim))"
    "student_fns sim' = student_fns sim"
    "step_results sim' = step_results sim"
  using assms
  by (auto simp: step_simulation_def get_sensor_readings_def Let_def update_soil_def
        update_soil_from_length split: prod.splits)

subsection \<open>Sensor faults along a run\<close>

lemma random_random_const: "tape g = (\<lambda>n. c) \<Longrightarrow> fst (random_random g) = frac c"
  by (simp add: random_random_def raw_draw_def)

lemma get_readings_parts:
  assumes "get_readings sa pls w s g = (rs, sa', g')"
  shows "length (pots rs) = length pls"
    and "sensor_failure_probability sa' = sensor_failure_probability sa"
    and "sensor_error_probability sa' = sensor_error_probability sa"
proof -
  let ?fs1 = "recover_sensors (sensor_failures sa) s"
  obtain fs2 g1 where tr:
    "trigger_failures (sensor_failure_probability sa) s [0 ..< length pls] ?fs1 g = (fs2, g1)"
    by (cases "trigger_failures (sensor_failure_probability sa) s [0 ..< length pls] ?fs1 g") auto
  obtain entries g2 where pr:
    "pot_readings fs2 (sensor_error_probability sa) w s 0 pls g1 = (entries, g2)"
    by (cases "pot_readings fs2 (sensor_error_probability sa) w s 0 pls g1") auto
  have rs: "pots rs = entries" and sa': "sa' = sa\<lparr>sensor_failures := fs2, reading_count := reading_count sa + 1\<rparr>"
    using assms tr pr by (auto simp: get_readings_def Let_def)
  show "length (pots rs) = length pls" using pot_readings_modes [OF pr] rs by simp
  show "sensor_failure_probability sa' = sensor_failure_probability sa" using sa' by simp
  show "sensor_error_probability sa' = sensor_error_probability sa" using sa' by simp
qed

lemma stale_fault_persists:
  assumes call: "get_readings sa pls w s g = (rs, sa', g')"
      and stale: "sensor_failures sa k = Some e" "s < e" and k: "k < length pls"
  shows "sensor_failures sa' k = Some e \<and> fst (pots rs ! k) = FaultMode"
proof -
  let ?fs1 = "recover_sensors (sensor_failures sa) s"
  obtain fs2 g1 where tr:
    "trigger_failures (sensor_failure_probability sa) s [0 ..< length pls] ?fs1 g = (fs2, g1)"
    by (cases "trigger_failures (sensor_failure_probability sa) s [0 ..< length pls] ?fs1 g") auto
  obtain entries g2 where pr:
    "pot_readings fs2 (sensor_error_probability sa) w s 0 pls g1 = (entries, g2)"
    by (cases "pot_readings fs2 (sensor_error_probability sa) w s 0 pls g1") auto
  have fs': "sensor_failures sa' = fs2" and rs: "pots rs = entries"
    using call tr pr by (auto simp: get_readings_def Let_def)
  have "?fs1 k = Some e" using stale by (simp add: recover_sensors_def)
  then have kept: "fs2 k = Some e" using trigger_failures_entries [OF tr, of k] by auto
  have "(fst (entries ! k) = FaultMode) = (fs2 (0 + k) \<noteq> None)"
    using pot_readings_modes [OF pr] k by blast
  then show ?thesis using kept fs' rs by simp
qed

lemma trigger_failures_first:
  assumes "trigger_failures p s (k # ks) fs g = (fs', g')" "fs k = None" "fst (random_random g) < p"
  shows "fs' k = Some (s + 1)"
proof -
  obtain r g1 where rr: "random_random g = (r, g1)" by (cases "random_random g") auto
  have "r < p" using assms(3) rr by simp
  with assms(1,2) rr have "trigger_failures p s ks (fs(k \<mapsto> s + 1)) g1 = (fs', g')" by simp
  from trigger_failures_entries [OF this, of k] show ?thesis by simp
qed

lemma first_call_entered: "sensor_failures (fst (snd first_call)) 0 = Some 1"
  by (simp add: first_call_def get_readings_def SensorArray_init_def example_config_def
      one_plant_def recover_sensors_def faulty_rng_def rng_defs Let_def split: prod.splits)

text \<open>
  Claim C10, refuted as stated. A fault stays recorded while the current step is below its
  end step, so a second call of \<^verbatim>\<open>get_readings\<close> in the same step (as
  \<^verbatim>\<open>GardenSimulator.get_sensor_readings\<close> makes) reads the same episode in fault mode again:
  pot \<open>0\<close> enters a fault in the first call of step \<open>0\<close> and both calls return a fault-mode
  reading for it.
\<close>

theorem sensor_fault_read_twice:
  "sensor_failures (fst (snd first_call)) 0 = Some 1 \<and>
   fst (pots (fst first_call) ! 0) = FaultMode \<and>
   sensor_failures (fst (snd second_call)) 0 = Some 1 \<and>
   fst (pots (fst second_call) ! 0) = FaultMode"
proof -
  have c1: "get_readings (SensorArray_init example_config) one_plant clear_weather 0 faulty_rng =
              (fst first_call, fst (snd first_call), snd (snd first_call))"
    by (simp add: first_call_def)
  have c2: "get_readings (fst (snd first_call)) one_plant clear_weather 0 (snd (snd first_call)) =
              (fst second_call, fst (snd second_call), snd (snd second_call))"
    by (simp add: second_call_def)
  have len: "0 < length one_plant" by (simp add: one_plant_def)
  have due: "sensors_due (SensorArray_init example_config) 0"
    by (simp add: sensors_due_def SensorArray_init_def)
  have "\<forall>k < length one_plant. (fst (pots (fst first_call) ! k) = FaultMode) =
            (sensor_failures (fst (snd first_call)) k = Some (0 + 1))"
    using get_readings_faults [OF c1] due by blast
  then have m1: "fst (pots (fst first_call) ! 0) = FaultMode"
    using first_call_entered len by simp
  have "(0::int) < 1" by simp
  from stale_fault_persists [OF c2 first_call_entered this len] m1 first_call_entered
  show ?thesis by simp
qed

lemma step_simulation_sensors:
  assumes st: "step_simulation sim step g = (r, sim', g')"
      and due: "sensors_due (sensors (device_manager sim)) step"
  shows "(\<forall>k e. sensor_failures (sensors (device_manager sim')) k = Some e \<longrightarrow> e = step + 1) \<and>
         (\<forall>k < length (plants sim).
            (fst (pots (result_sensor_readings r) ! k) = FaultMode) =
            (sensor_failures (sensors (device_manager sim')) k = Some (step + 1))) \<and>
         recover_sensors (sensor_failures (sensors (device_manager sim'))) (step + 1) = Map.empty \<and>
         sensors_due (sensors (device_manager sim')) (step + 1)"
proof -
  from st obtain weather ws' g1 rs sa' g2 where
    rd: "get_readings (sensors (device_manager sim)) (plants sim) weather step g1 = (rs, sa', g2)"
    and rr: "result_sensor_readings r = rs"
    and ex: "execute_device_actions ((device_manager sim)\<lparr>sensors := sa'\<rparr>)
       (result_student_decisions r) step g2 = (result_device_actions r, device_manager sim', g')"
    by (rule step_simulation_parts)
  have s: "sensors (device_manager sim') = sa'"
    using execute_device_actions_parts [OF ex] by simp
  show ?thesis using get_readings_faults [OF rd] due unfolding s rr by blast
qed

lemma run_steps_sensors_due:
  "run_steps sim (map int [a ..< a + n]) g = (sim', g') \<Longrightarrow>
   sensors_due (sensors (device_manager sim)) (int a) \<Longrightarrow>
   sensors_due (sensors (device_manager sim')) (int (a + n))"
proof (induction n arbitrary: a sim g)
  case 0
  then show ?case by simp
next
  case (Suc n)
  have steps: "[a ..< a + Suc n] = a # [Suc a ..< Suc a + n]" by (simp add: upt_rec)
  obtain r s1 g1 where st: "step_simulation sim (int a) g = (r, s1, g1)"
    by (cases "step_simulation sim (int a) g") auto
  let ?s1 = "s1\<lparr>step_results := step_results s1 @ [r]\<rparr>"
  have run: "run_steps ?s1 (map int [Suc a ..< Suc a + n]) g1 = (sim', g')"
    using Suc.prems(1) st unfolding steps by simp
  have d1: "sensors_due (sensors (device_manager s1)) (int a + 1)"
    using step_simulation_sensors [OF st Suc.prems(2)] by blast
  have eq: "int (Suc a) = int a + 1" by simp
  have same: "sensors (device_manager ?s1) = sensors (device_manager s1)" by simp
  have due: "sensors_due (sensors (device_manager ?s1)) (int (Suc a))"
    unfolding same eq by (rule d1)
  from Suc.IH [OF run due] show ?case by simp
qed

lemma step_simulation_static:
  assumes st: "step_simulation sim step g = (r, sim', g')"
  shows "tape g' = tape g"
    and "sensor_failure_probability (sensors (device_manager sim')) =
           sensor_failure_probability (sensors (device_manager sim))"
    and "length (plants sim') = min (length (plants sim)) (length (soil_states (soil_manager sim)))"
    and "length (soil_states (soil_manager sim')) = length (soil_states (soil_manager sim))"
proof -
  from st obtain weather ws' g1 rs sa' g2 where
    sw: "step_weather (weather_sim sim) step g = (weather, ws', g1)"
    and rd: "get_readings (sensors (device_manager sim)) (plants sim) weather step g1 = (rs, sa', g2)"
    and ex: "execute_device_actions ((device_manager sim)\<lparr>sensors := sa'\<rparr>)
       (result_student_decisions r) step g2 = (result_device_actions r, device_manager sim', g')"
    and lp: "length (plants sim') = min (length (plants sim)) (length (soil_states (soil_manager sim)))"
    and ls: "length (soil_states (soil_manager sim')) = length (soil_states (soil_manager sim))"
    by (rule step_simulation_parts)
  show "tape g' = tape g"
    using step_weather_tape [OF sw] get_readings_tape [OF rd] execute_device_actions_parts [OF ex]
    by simp
  show "sensor_failure_probability (sensors (device_manager sim')) =
           sensor_failure_probability (sensors (device_manager sim))"
    using get_readings_parts(2) [OF rd] execute_device_actions_parts [OF ex] by simp
  show "length (plants sim') = min (length (plants sim)) (length (soil_states (soil_manager sim)))"
    by (rule lp)
  show "length (soil_states (soil_manager sim')) = length (soil_states (soil_manager sim))"
    by (rule ls)
qed

lemma run_steps_static:
  assumes "run_steps sim steps g = (sim', g')"
      and "length (plants sim) = length (soil_states (soil_manager sim))"
  shows "tape g' = tape g \<and>
         sensor_failure_probability (sensors (device_manager sim')) =
           sensor_failure_probability (sensors (device_manager sim)) \<and>
         length (plants sim') = length (plants sim) \<and>
         length (soil_states (soil_manager sim')) = length (soil_states (soil_manager sim))"
  using assms
proof (induction steps arbitrary: sim g)
  case Nil
  then show ?case by simp
next
  case (Cons step rest)
  obtain r s1 g1 where st: "step_simulation sim step g = (r, s1, g1)"
    by (cases "step_simulation sim step g") auto
  let ?s1 = "s1\<lparr>step_results := step_results s1 @ [r]\<rparr>"
  have run: "run_steps ?s1 rest g1 = (sim', g')" using Cons.prems(1) st by simp
  note s = step_simulation_static [OF st]
  have len: "length (plants ?s1) = length (soil_states (soil_manager ?s1))"
    using s(3) s(4) Cons.prems(2) by simp
  from Cons.IH [OF run len] s Cons.prems(2) show ?case by simp
qed

lemma get_readings_first_pot:
  assumes call: "get_readings sa pls w s g = (rs, sa', g')"
      and none: "recover_sensors (sensor_failures sa) s 0 = None"
      and ne: "pls \<noteq> []"
      and hit: "fst (random_random g) < sensor_failure_probability sa"
  shows "sensor_failures sa' 0 = Some (s + 1)"
proof -
  let ?fs1 = "recover_sensors (sensor_failures sa) s"
  have upt: "[0 ..< length pls] = 0 # [1 ..< length pls]" using ne by (simp add: upt_rec)
  obtain fs2 g1 where tr:
    "trigger_failures (sensor_failure_probability sa) s (0 # [1 ..< length pls]) ?fs1 g = (fs2, g1)"
    by (cases "trigger_failures (sensor_failure_probability sa) s (0 # [1 ..< length pls]) ?fs1 g") auto
  have "sensor_failures sa' = fs2"
    using call tr unfolding get_readings_def Let_def upt by (auto split: prod.splits)
  then show ?thesis using trigger_failures_first [OF tr none hit] by simp
qed

lemma init_lengths:
  "length (plants (GardenSimulator_init c)) = length (soil_states (soil_manager (GardenSimulator_init c)))"
  "length (plants (GardenSimulator_init c)) = 5"
  by (simp_all add: GardenSimulator_init_def SoilManager_init_def)

text \<open>
  Claim C10, amended. In a run that starts with no recorded sensor fault and calls
  \<^verbatim>\<open>get_readings\<close> once per step at the steps \<open>0, 1, 2, \<dots>\<close> (as \<^verbatim>\<open>run_simulation\<close> does on a
  fresh simulator), at every step \<open>n\<close>: the recovery pass finds no fault left from earlier
  steps; every fault recorded after the step was entered in it and has
  \<^verbatim>\<open>failure_end_step = n + 1\<close>; a pot's reading of step \<open>n\<close> is a fault-mode reading exactly
  when the pot entered a fault in step \<open>n\<close>; and the recovery pass of step \<open>n + 1\<close> removes
  every fault before the readings of that step are generated. So each episode lasts one
  step and yields one fault-mode reading.
\<close>

theorem sensor_fault_one_step_in_run:
  assumes fresh: "sensor_failures (sensors (device_manager sim0)) = Map.empty"
      and run: "run_steps sim0 (map int [0 ..< n]) g0 = (sim, g)"
      and st: "step_simulation sim (int n) g = (r, sim', g')"
  shows "recover_sensors (sensor_failures (sensors (device_manager sim))) (int n) = Map.empty \<and>
         (\<forall>k e. sensor_failures (sensors (device_manager sim')) k = Some e \<longrightarrow> e = int n + 1) \<and>
         (\<forall>k < length (plants sim).
            (fst (pots (result_sensor_readings r) ! k) = FaultMode) =
            (sensor_failures (sensors (device_manager sim')) k = Some (int n + 1))) \<and>
         recover_sensors (sensor_failures (sensors (device_manager sim'))) (int n + 1) = Map.empty"
proof -
  have "sensors_due (sensors (device_manager sim0)) (int 0)"
    using fresh by (simp add: sensors_due_def)
  moreover have "run_steps sim0 (map int [0 ..< 0 + n]) g0 = (sim, g)" using run by simp
  ultimately have due: "sensors_due (sensors (device_manager sim)) (int n)"
    using run_steps_sensors_due [of sim0 0 n g0 sim g] by simp
  show ?thesis
    using step_simulation_sensors [OF st due] recover_sensors_due [OF due] by blast
qed

theorem sensor_fault_one_step_in_run_witness:
  "sensor_failures (sensors (device_manager (GardenSimulator_init example_config))) = Map.empty \<and>
   recover_sensors (sensor_failures (sensors (device_manager (fst warm_up)))) 1 = Map.empty \<and>
   sensor_failures (sensors (device_manager (fst (snd second_step)))) 0 = Some 2 \<and>
   fst (pots (result_sensor_readings (fst second_step)) ! 0) = FaultMode \<and>
   recover_sensors (sensor_failures (sensors (device_manager (fst (snd second_step))))) 2 = Map.empty"
proof -
  let ?sim0 = "GardenSimulator_init example_config"
  have fresh: "sensor_failures (sensors (device_manager ?sim0)) = Map.empty"
    by (simp add: GardenSimulator_init_def DeviceManager_init_def SensorArray_init_def)
  have run: "run_steps ?sim0 (map int [0 ..< 1]) hasty_rng = (fst warm_up, snd warm_up)"
    unfolding warm_up_def by (rule prod.collapse [symmetric])
  have st: "step_simulation (fst warm_up) (int 1) (snd warm_up) =
              (fst second_step, fst (snd second_step), snd (snd second_step))"
    unfolding second_step_def by simp
  note main = sensor_fault_one_step_in_run [OF fresh run st]
  have empty: "recover_sensors (sensor_failures (sensors (device_manager (fst warm_up)))) (int 1) = Map.empty"
    using main by blast
  note stat = run_steps_static [OF run init_lengths(1)]
  have tape: "tape (snd warm_up) = (\<lambda>n. 0.05)" using stat by (simp add: hasty_rng_def)
  have prob: "sensor_failure_probability (sensors (device_manager (fst warm_up))) = 0.1"
    using stat
    by (simp add: GardenSimulator_init_def DeviceManager_init_def SensorArray_init_def
        example_config_def)
  have len: "length (plants (fst warm_up)) = 5" using stat init_lengths(2) by simp
  from st obtain weather ws' g1 rs sa' g2 where
    sw: "step_weather (weather_sim (fst warm_up)) (int 1) (snd warm_up) = (weather, ws', g1)"
    and rd: "get_readings (sensors (device_manager (fst warm_up))) (plants (fst warm_up)) weather
               (int 1) g1 = (rs, sa', g2)"
    and ex: "execute_device_actions ((device_manager (fst warm_up))\<lparr>sensors := sa'\<rparr>)
       (result_student_decisions (fst second_step)) (int 1) g2 =
       (result_device_actions (fst second_step), device_manager (fst (snd second_step)),
        snd (snd second_step))"
    by (rule step_simulation_parts)
  have t1: "tape g1 = (\<lambda>n. 0.05)" using step_weather_tape [OF sw] tape by simp
  have hit: "fst (random_random g1) < sensor_failure_probability (sensors (device_manager (fst warm_up)))"
    using random_random_const [OF t1] prob by (simp add: frac_def)
  have ne: "plants (fst warm_up) \<noteq> []" using len by auto
  have none: "recover_sensors (sensor_failures (sensors (device_manager (fst warm_up)))) (int 1) 0 = None"
    using empty by simp
  have s: "sensors (device_manager (fst (snd second_step))) = sa'"
    using execute_device_actions_parts [OF ex] by simp
  have entered: "sensor_failures (sensors (device_manager (fst (snd second_step)))) 0 = Some 2"
    using get_readings_first_pot [OF rd none ne hit] s by simp
  have m2: "\<forall>k < length (plants (fst warm_up)).
              (fst (pots (result_sensor_readings (fst second_step)) ! k) = FaultMode) =
              (sensor_failures (sensors (device_manager (fst (snd second_step)))) k = Some (int 1 + 1))"
    using main by blast
  have "0 < length (plants (fst warm_up))" using len by simp
  with m2 have "(fst (pots (result_sensor_readings (fst second_step)) ! 0) = FaultMode) =
              (sensor_failures (sensors (device_manager (fst (snd second_step)))) 0 = Some (int 1 + 1))"
    by blast
  then have mode: "fst (pots (result_sensor_readings (fst second_step)) ! 0) = FaultMode"
    using entered by simp
  have "recover_sensors (sensor_failures (sensors (device_manager (fst (snd second_step))))) (int 1 + 1) = Map.empty"
    using main by blast
  then have rec: "recover_sensors (sensor_failures (sensors (device_manager (fst (snd second_step))))) 2 = Map.empty"
    by simp
  have empty1: "recover_sensors (sensor_failures (sensors (device_manager (fst warm_up)))) 1 = Map.empty"
    using empty by simp
  show ?thesis using fresh empty1 entered mode rec by (intro conjI)
qed

end
